theory Spec2Isabelle
  imports Main "HOL-Library.Signed_Division"
begin

section \<open>Go integers\<close>

text \<open>
  Go's \<open>/\<close> and \<open>%\<close> on signed integers truncate toward zero; they are \<open>sdiv\<close> and
  \<open>smod\<close> on \<open>int\<close>.  The \<open>int64\<close> values of the column code are modelled as \<open>int\<close>:
  on the paths below the only operations are a division or a remainder by a positive
  constant and a product of a remainder below 1000 with \<open>1000000\<close>, none of which
  can leave the 64-bit range.  The one narrowing conversion that changes a value,
  \<open>byte(precision)\<close>, is written out.
\<close>

definition byte :: "int \<Rightarrow> nat" where
  "byte x = nat (x mod 256)"

section \<open>The standard library's time values\<close>

text \<open>
  A \<open>*time.Location\<close> is its zone table: a name, the offset (in seconds east of UTC)
  in force before the first transition, and the transitions in ascending order of
  time, each the Unix time it happens at and the offset in force from then on.
  \<open>zoneLookup l u\<close> is what \<open>Location.lookup\<close> returns for the Unix time \<open>u\<close>: the offset
  in force and the interval \<open>[start, until)\<close> over which it holds; \<open>alpha\<close> and \<open>omega\<close>
  are the library's beginning and end of time.
\<close>

datatype location = Location (zoneName: string) (zoneFirst: int) (zoneTx: "(int \<times> int) list")

definition alpha :: int where
  "alpha = - (2 ^ 63)"

definition omega :: int where
  "omega = 2 ^ 63 - 1"

fun lookupTx :: "(int \<times> int) list \<Rightarrow> int \<Rightarrow> int \<times> int \<times> int \<Rightarrow> int \<times> int \<times> int" where
  "lookupTx [] u cur = cur"
| "lookupTx ((at, off) # tx) u (off0, start, until) =
     (if u < at then (off0, start, at) else lookupTx tx u (off, at, omega))"

definition zoneLookup :: "location \<Rightarrow> int \<Rightarrow> int \<times> int \<times> int" where
  "zoneLookup l u = lookupTx (zoneTx l) u (zoneFirst l, alpha, omega)"

definition UTC :: location where
  "UTC = Location ''UTC'' 0 []"

definition FixedZone :: "string \<Rightarrow> int \<Rightarrow> location" where
  "FixedZone nm off = Location nm off []"

definition zoneOffset :: "location \<Rightarrow> int \<Rightarrow> int" where
  "zoneOffset l u = fst (zoneLookup l u)"

text \<open>
  A \<open>time.Time\<close> is an instant (seconds since the Unix epoch and nanoseconds within the
  second, \<open>0 \<le> nano < 10^9\<close>) together with the location it is displayed in.
\<close>

record gotime =
  unix :: int
  nano :: int
  zone :: location

text \<open>\<open>time.Time{}\<close>: January 1, year 1, 00:00:00 UTC.\<close>

definition zeroTime :: gotime where
  "zeroTime = \<lparr>unix = - 62135596800, nano = 0, zone = UTC\<rparr>"

text \<open>\<open>norm\<close> of package time: carries the excess of \<open>lo\<close> over \<open>[0, base)\<close> into \<open>hi\<close>.\<close>

definition norm :: "int \<Rightarrow> int \<Rightarrow> int \<Rightarrow> int \<times> int" where
  "norm hi lo base =
     (let (hi1, lo1) = (if lo < 0
                        then (let n = (- lo - 1) sdiv base + 1 in (hi - n, lo + n * base))
                        else (hi, lo))
      in if lo1 \<ge> base
         then (let n = lo1 sdiv base in (hi1 + n, lo1 - n * base))
         else (hi1, lo1))"

definition isLeap :: "int \<Rightarrow> bool" where
  "isLeap y = (y mod 4 = 0 \<and> (y mod 100 \<noteq> 0 \<or> y mod 400 = 0))"

definition daysBefore :: "int list" where
  "daysBefore = [0, 31, 59, 90, 120, 151, 181, 212, 243, 273, 304, 334, 365]"

text \<open>Days from 1970-01-01 to January 1 of year \<open>y\<close> in the proleptic Gregorian calendar.\<close>

definition daysSinceEpoch :: "int \<Rightarrow> int" where
  "daysSinceEpoch y =
     365 * (y - 1970) + (y - 1969) div 4 - (y - 1901) div 100 + (y - 1601) div 400"

text \<open>
  \<open>time.Date\<close>: month, nanoseconds, seconds, minutes and hours are normalised in that
  order, each overflowing into the next unit; the wall clock reading is then taken to
  UTC with the offset the location has at that time.
\<close>

definition time_Date ::
  "int \<Rightarrow> int \<Rightarrow> int \<Rightarrow> int \<Rightarrow> int \<Rightarrow> int \<Rightarrow> int \<Rightarrow> location \<Rightarrow> gotime" where
  "time_Date year month day hour minute sec nsec l =
     (let (year1, m) = norm year (month - 1) 12;
          (sec1, nsec1) = norm sec nsec 1000000000;
          (min1, sec2) = norm minute sec1 60;
          (hour1, min2) = norm hour min1 60;
          (day1, hour2) = norm day hour1 24;
          d = daysSinceEpoch year1 + daysBefore ! nat m
                + (if isLeap year1 \<and> m \<ge> 2 then 1 else 0) + (day1 - 1);
          u = d * 86400 + hour2 * 3600 + min2 * 60 + sec2;
          (off, start, until) = zoneLookup l u;
          u1 = (if off \<noteq> 0
                then (let utc = u - off;
                          off1 = (if utc < start \<or> utc \<ge> until then zoneOffset l utc else off)
                      in u - off1)
                else u)
      in \<lparr>unix = u1, nano = nsec1, zone = l\<rparr>)"

text \<open>
  The clock accessors read the instant in the time's own location.  The library counts
  the seconds from its absolute zero (\<open>unixToAbsolute\<close> seconds before the Unix epoch, a
  whole number of days) in an unsigned 64-bit word, so the count wraps at \<open>2^64\<close>.
\<close>

definition unixToAbsolute :: int where
  "unixToAbsolute = 9223372028715321600"

definition absSec :: "gotime \<Rightarrow> int" where
  "absSec t = (unix t + zoneOffset (zone t) (unix t) + unixToAbsolute) mod 2 ^ 64"

definition wallSec :: "gotime \<Rightarrow> int" where
  "wallSec t = absSec t mod 86400"

definition Hour :: "gotime \<Rightarrow> int" where
  "Hour t = wallSec t div 3600"

definition Minute :: "gotime \<Rightarrow> int" where
  "Minute t = (wallSec t mod 3600) div 60"

definition Second :: "gotime \<Rightarrow> int" where
  "Second t = wallSec t mod 60"

definition Nanosecond :: "gotime \<Rightarrow> int" where
  "Nanosecond t = nano t"

definition time_In :: "gotime \<Rightarrow> location \<Rightarrow> gotime" where
  "time_In t l = t\<lparr>zone := l\<rparr>"

section \<open>The standard library's strings and numbers\<close>

definition strings_HasPrefix :: "string \<Rightarrow> string \<Rightarrow> bool" where
  "strings_HasPrefix s p = (take (length p) s = p)"

definition strings_HasSuffix :: "string \<Rightarrow> string \<Rightarrow> bool" where
  "strings_HasSuffix s p = (length p \<le> length s \<and> drop (length s - length p) s = p)"

definition strings_TrimPrefix :: "string \<Rightarrow> string \<Rightarrow> string" where
  "strings_TrimPrefix s p = (if strings_HasPrefix s p then drop (length p) s else s)"

definition strings_TrimSuffix :: "string \<Rightarrow> string \<Rightarrow> string" where
  "strings_TrimSuffix s p = (if strings_HasSuffix s p then take (length s - length p) s else s)"

fun strings_Contains :: "string \<Rightarrow> string \<Rightarrow> bool" where
  "strings_Contains [] sub = (sub = [])"
| "strings_Contains (c # cs) sub = (strings_HasPrefix (c # cs) sub \<or> strings_Contains cs sub)"

text \<open>
  \<open>strings.Split\<close> with a one-byte separator, the only form the column code uses
  (\<open>strings.Split(string(t), ",")\<close>): \<open>splitOn sep acc s\<close> has read \<open>acc\<close> (reversed)
  since the last separator.
\<close>

fun splitOn :: "char \<Rightarrow> string \<Rightarrow> string \<Rightarrow> string list" where
  "splitOn sep acc [] = [rev acc]"
| "splitOn sep acc (c # cs) =
     (if c = sep then rev acc # splitOn sep [] cs else splitOn sep (c # acc) cs)"

definition strings_Split :: "string \<Rightarrow> char \<Rightarrow> string list" where
  "strings_Split s sep = splitOn sep [] s"

definition isDigit :: "char \<Rightarrow> bool" where
  "isDigit c = (48 \<le> (of_char c :: nat) \<and> (of_char c :: nat) \<le> 57)"

definition digitVal :: "char \<Rightarrow> int" where
  "digitVal c = int (of_char c) - 48"

text \<open>The value of a string of decimal digits, most significant first.\<close>

definition decimal :: "string \<Rightarrow> int" where
  "decimal ds = foldl (\<lambda>n c. n * 10 + digitVal c) 0 ds"

datatype error =
    UnsupportedColumnTypeError string
  | ColumnConverterError (Op: string) (To: string) (From: string) (Hint: string)
  | NumError string string string
  | Errorf string
  | RegistryError string
  | Panic string

text \<open>
  \<open>strconv.ParseInt(s, 10, bitSize)\<close>: an optional sign, then one or more decimal
  digits and nothing else; the value must fit \<open>bitSize\<close> bits in two's complement.
\<close>

definition strconv_ParseInt :: "string \<Rightarrow> nat \<Rightarrow> error + int" where
  "strconv_ParseInt s bitSize =
     (if s = [] then Inl (NumError ''ParseInt'' s ''invalid syntax'')
      else let neg = (hd s = CHR ''-'');
               ds = (if hd s = CHR ''+'' \<or> hd s = CHR ''-'' then tl s else s)
           in if ds = [] \<or> \<not> list_all isDigit ds
              then Inl (NumError ''ParseInt'' s ''invalid syntax'')
              else let un = decimal ds; cutoff = 2 ^ (bitSize - 1)
                   in if \<not> neg \<and> un \<ge> cutoff then Inl (NumError ''ParseInt'' s ''value out of range'')
                      else if neg \<and> un > cutoff then Inl (NumError ''ParseInt'' s ''value out of range'')
                      else Inr (if neg then - un else un))"

section \<open>The standard library's time.Parse and Time.Format\<close>

text \<open>
  The layouts of the column code are written with the bytes \<open>0\<close>-\<open>9\<close>, \<open>:\<close>, \<open>.\<close>, space,
  \<open>P\<close>, \<open>M\<close> and \<open>-\<close>.  \<open>stdAt\<close> is the switch of \<open>nextStdChunk\<close> on those bytes: the
  layout element that starts at the head of the layout, if any, and the layout after
  it.  Elements that stand for a date or for a zone in another form than \<open>-07:00\<close> are
  recognised, so that the split of a layout is the library's, and are all \<open>stdOther\<close>:
  no layout of the column code holds one, and parsing one is outside this model.
\<close>

datatype std =
    stdNone
  | stdHour
  | stdHour12
  | stdZeroHour12
  | stdMinute
  | stdZeroMinute
  | stdSecond
  | stdZeroSecond
  | stdPM
  | stdNumColonTZ
  | stdFracSecond0 nat char
  | stdFracSecond9 nat char
  | stdOther

definition stdAt :: "string \<Rightarrow> (std \<times> string) option" where
  "stdAt l =
     (case l of [] \<Rightarrow> None
      | c # cs \<Rightarrow>
          if c = CHR ''0'' then
            (if strings_HasPrefix l ''01'' \<or> strings_HasPrefix l ''02'' \<or> strings_HasPrefix l ''06''
               then Some (stdOther, drop 2 l)
             else if strings_HasPrefix l ''03'' then Some (stdZeroHour12, drop 2 l)
             else if strings_HasPrefix l ''04'' then Some (stdZeroMinute, drop 2 l)
             else if strings_HasPrefix l ''05'' then Some (stdZeroSecond, drop 2 l)
             else if strings_HasPrefix l ''002'' then Some (stdOther, drop 3 l)
             else None)
          else if c = CHR ''1'' then
            (if strings_HasPrefix l ''15'' then Some (stdHour, drop 2 l) else Some (stdOther, cs))
          else if c = CHR ''2'' then
            (if strings_HasPrefix l ''2006'' then Some (stdOther, drop 4 l) else Some (stdOther, cs))
          else if c = CHR ''3'' then Some (stdHour12, cs)
          else if c = CHR ''4'' then Some (stdMinute, cs)
          else if c = CHR ''5'' then Some (stdSecond, cs)
          else if c = CHR ''P'' then
            (if strings_HasPrefix l ''PM'' then Some (stdPM, drop 2 l) else None)
          else if c = CHR ''-'' then
            (if strings_HasPrefix l ''-070000'' then Some (stdOther, drop 7 l)
             else if strings_HasPrefix l ''-07:00:00'' then Some (stdOther, drop 9 l)
             else if strings_HasPrefix l ''-0700'' then Some (stdOther, drop 5 l)
             else if strings_HasPrefix l ''-07:00'' then Some (stdNumColonTZ, drop 6 l)
             else if strings_HasPrefix l ''-07'' then Some (stdOther, drop 3 l)
             else None)
          else if c = CHR ''.'' \<or> c = CHR '','' then
            (case cs of [] \<Rightarrow> None
             | ch # _ \<Rightarrow>
                 if ch = CHR ''0'' \<or> ch = CHR ''9'' then
                   (let run = takeWhile (\<lambda>x. x = ch) cs; rest = dropWhile (\<lambda>x. x = ch) cs
                    in if rest \<noteq> [] \<and> isDigit (hd rest) then None
                       else Some (if ch = CHR ''9'' then stdFracSecond9 (length run) c
                                  else stdFracSecond0 (length run) c, rest))
                 else None)
          else None)"

text \<open>
  \<open>nextStdChunk\<close>: the literal text before the first layout element, the element, and
  the layout after it; \<open>stdNone\<close> (the library's 0) when the layout holds no element.
\<close>

fun nextStdChunk :: "string \<Rightarrow> string \<times> std \<times> string" where
  "nextStdChunk [] = ([], stdNone, [])"
| "nextStdChunk (c # cs) =
     (case stdAt (c # cs) of
        Some (s, rest) \<Rightarrow> ([], s, rest)
      | None \<Rightarrow> (let (p, s, r) = nextStdChunk cs in (c # p, s, r)))"

definition cutspace :: "string \<Rightarrow> string" where
  "cutspace s = dropWhile (\<lambda>c. c = CHR '' '') s"

text \<open>\<open>skip\<close>: the value after the literal \<open>prefix\<close>; a space of the prefix stands for any run of spaces.\<close>

function skip :: "string \<Rightarrow> string \<Rightarrow> string option" where
  "skip v [] = Some v"
| "skip v (p # ps) =
     (if p = CHR '' ''
      then (if v \<noteq> [] \<and> hd v \<noteq> CHR '' '' then None else skip (cutspace v) (cutspace ps))
      else (case v of [] \<Rightarrow> None
            | x # xs \<Rightarrow> if x \<noteq> p then None else skip xs ps))"
  by pat_completeness auto
termination
  by (relation "measure (\<lambda>(v, p). length p)")
     (auto simp: cutspace_def intro: le_imp_less_Suc length_dropWhile_le)

definition getnum :: "string \<Rightarrow> bool \<Rightarrow> (int \<times> string) option" where
  "getnum s fixed =
     (case s of [] \<Rightarrow> None
      | a # r \<Rightarrow>
          if \<not> isDigit a then None
          else (case r of
                  [] \<Rightarrow> if fixed then None else Some (digitVal a, r)
                | b # r2 \<Rightarrow>
                    if \<not> isDigit b then (if fixed then None else Some (digitVal a, r))
                    else Some (digitVal a * 10 + digitVal b, r2)))"

definition atoi :: "string \<Rightarrow> int option" where
  "atoi s =
     (let neg = (s \<noteq> [] \<and> hd s = CHR ''-'');
          s1 = (if s \<noteq> [] \<and> (hd s = CHR ''-'' \<or> hd s = CHR ''+'') then tl s else s)
      in if list_all isDigit s1 then Some (if neg then - decimal s1 else decimal s1) else None)"

definition commaOrPeriod :: "char \<Rightarrow> bool" where
  "commaOrPeriod c = (c = CHR ''.'' \<or> c = CHR '','')"

text \<open>
  \<open>parseNanoseconds\<close>: the separator and the \<open>nbytes - 1\<close> digits after it, at most
  nine of them read, scaled to nanoseconds.
\<close>

definition parseNanoseconds :: "string \<Rightarrow> nat \<Rightarrow> int option" where
  "parseNanoseconds v nbytes =
     (if v = [] \<or> \<not> commaOrPeriod (hd v) then None
      else let nb = (if nbytes > 10 then 10 else nbytes)
           in (case atoi (take (nb - 1) (drop 1 v)) of
                 None \<Rightarrow> None
               | Some ns \<Rightarrow> if ns < 0 then None else Some (ns * 10 ^ (10 - nb))))"

record pstate =
  p_hour :: int
  p_min :: int
  p_sec :: int
  p_nsec :: int
  pmSet :: bool
  amSet :: bool
  p_zoneOffset :: int

text \<open>
  One case of the switch in \<open>parse\<close>: reads the element \<open>s\<close> off the value; \<open>layout\<close> is
  the layout after the element, which the seconds case looks into.  A range error and
  a syntax error both end the parse, so both are \<open>None\<close>.
\<close>

definition parseStd :: "std \<Rightarrow> string \<Rightarrow> string \<Rightarrow> pstate \<Rightarrow> (string \<times> pstate) option" where
  "parseStd s layout v st =
     (if s = stdHour then
        (case getnum v False of None \<Rightarrow> None
         | Some (h, v1) \<Rightarrow> if h < 0 \<or> 24 \<le> h then None else Some (v1, st\<lparr>p_hour := h\<rparr>))
      else if s = stdHour12 \<or> s = stdZeroHour12 then
        (case getnum v (s = stdZeroHour12) of None \<Rightarrow> None
         | Some (h, v1) \<Rightarrow> if h < 0 \<or> 12 < h then None else Some (v1, st\<lparr>p_hour := h\<rparr>))
      else if s = stdMinute \<or> s = stdZeroMinute then
        (case getnum v (s = stdZeroMinute) of None \<Rightarrow> None
         | Some (m, v1) \<Rightarrow> if m < 0 \<or> 60 \<le> m then None else Some (v1, st\<lparr>p_min := m\<rparr>))
      else if s = stdSecond \<or> s = stdZeroSecond then
        (case getnum v (s = stdZeroSecond) of None \<Rightarrow> None
         | Some (sc, v1) \<Rightarrow>
             if sc < 0 \<or> 60 \<le> sc then None
             else if length v1 \<ge> 2 \<and> commaOrPeriod (v1 ! 0) \<and> isDigit (v1 ! 1) then
               (case fst (snd (nextStdChunk layout)) of
                  stdFracSecond0 _ _ \<Rightarrow> Some (v1, st\<lparr>p_sec := sc\<rparr>)
                | stdFracSecond9 _ _ \<Rightarrow> Some (v1, st\<lparr>p_sec := sc\<rparr>)
                | _ \<Rightarrow>
                    (let n = 2 + length (takeWhile isDigit (drop 2 v1))
                     in case parseNanoseconds v1 n of None \<Rightarrow> None
                        | Some ns \<Rightarrow> Some (drop n v1, st\<lparr>p_sec := sc, p_nsec := ns\<rparr>)))
             else Some (v1, st\<lparr>p_sec := sc\<rparr>))
      else if s = stdPM then
        (if length v < 2 then None
         else if take 2 v = ''PM'' then Some (drop 2 v, st\<lparr>pmSet := True\<rparr>)
         else if take 2 v = ''AM'' then Some (drop 2 v, st\<lparr>amSet := True\<rparr>)
         else None)
      else if s = stdNumColonTZ then
        (if length v < 6 then None
         else if v ! 3 \<noteq> CHR '':'' then None
         else (case getnum (take 2 (drop 1 v)) True of None \<Rightarrow> None
               | Some (hr, _) \<Rightarrow>
                   (case getnum (take 2 (drop 4 v)) True of None \<Rightarrow> None
                    | Some (mm, _) \<Rightarrow>
                        if hr > 24 \<or> mm > 60 then None
                        else if v ! 0 = CHR ''+'' then Some (drop 6 v, st\<lparr>p_zoneOffset := (hr * 60 + mm) * 60\<rparr>)
                        else if v ! 0 = CHR ''-'' then Some (drop 6 v, st\<lparr>p_zoneOffset := - ((hr * 60 + mm) * 60)\<rparr>)
                        else None)))
      else (case s of
              stdFracSecond0 n _ \<Rightarrow>
                (if length v < 1 + n then None
                 else (case parseNanoseconds v (1 + n) of None \<Rightarrow> None
                       | Some ns \<Rightarrow> Some (drop (1 + n) v, st\<lparr>p_nsec := ns\<rparr>)))
            | stdFracSecond9 _ _ \<Rightarrow>
                (if length v < 2 \<or> \<not> commaOrPeriod (v ! 0) \<or> \<not> isDigit (v ! 1) then Some (v, st)
                 else (let i = length (takeWhile isDigit (drop 1 v))
                       in case parseNanoseconds v (1 + i) of None \<Rightarrow> None
                          | Some ns \<Rightarrow> Some (drop (1 + i) v, st\<lparr>p_nsec := ns\<rparr>)))
            | _ \<Rightarrow> None))"

lemma stdAt_shorter:
  assumes "stdAt l = Some (s, r)"
  shows "length r < length l"
proof (cases l)
  case Nil
  with assms show ?thesis by (simp add: stdAt_def)
next
  case (Cons c cs)
  have d: "length (dropWhile P xs) \<le> Suc (length xs)" for P :: "char \<Rightarrow> bool" and xs
    by (rule le_SucI) (rule length_dropWhile_le)
  have "Some (s, r) = stdAt (c # cs)" using assms Cons by simp
  then show ?thesis
    unfolding stdAt_def Cons list.case
    by (simp add: Let_def d less_Suc_eq_le split: if_splits list.splits)
qed

lemma nextStdChunk_shorter:
  "nextStdChunk l = (p, s, r) \<Longrightarrow> s \<noteq> stdNone \<Longrightarrow> length r < length l"
proof (induction l arbitrary: p s r)
  case Nil
  then show ?case by simp
next
  case (Cons c cs)
  show ?case
  proof (cases "stdAt (c # cs)")
    case None
    obtain p1 s1 r1 where n: "nextStdChunk cs = (p1, s1, r1)"
      by (cases "nextStdChunk cs") auto
    with None Cons.prems have "s1 = s" "r1 = r" by auto
    with n Cons.IH Cons.prems(2) have "length r < length cs" by blast
    then show ?thesis by simp
  next
    case (Some a)
    then show ?thesis using Cons.prems stdAt_shorter [of "c # cs" s r]
      by (cases a) auto
  qed
qed

text \<open>
  The loop of \<open>parse\<close>: each round skips the literal text before the next element and
  reads the element; after the last element nothing of the value may be left.
\<close>

function parseLoop :: "string \<Rightarrow> string \<Rightarrow> pstate \<Rightarrow> pstate option" where
  "parseLoop layout v st =
     (case nextStdChunk layout of
        (prefix, s, suffix) \<Rightarrow>
          (case skip v prefix of
             None \<Rightarrow> None
           | Some v1 \<Rightarrow>
               if s = stdNone then (if v1 \<noteq> [] then None else Some st)
               else (case parseStd s suffix v1 st of
                       None \<Rightarrow> None
                     | Some (v2, st1) \<Rightarrow> parseLoop suffix v2 st1)))"
  by pat_completeness auto
termination
  by (relation "measure (\<lambda>(layout, v, st). length layout)")
     (auto dest: nextStdChunk_shorter [OF sym])

text \<open>
  \<open>time.Parse\<close> of a layout without date elements: the date is January 1 of year 0,
  the hour is corrected by the meridiem, and the result is in UTC unless the value
  carried an offset; then it is that wall clock reading in a zone with that offset
  (the machine's local zone if it has that offset at that time, a fixed zone
  otherwise: the same instant and the same reading either way).  \<open>None\<close> is any
  parse error.
\<close>

definition time_Parse :: "string \<Rightarrow> string \<Rightarrow> gotime option" where
  "time_Parse layout v =
     (case parseLoop layout v
             \<lparr>p_hour = 0, p_min = 0, p_sec = 0, p_nsec = 0,
              pmSet = False, amSet = False, p_zoneOffset = - 1\<rparr> of
        None \<Rightarrow> None
      | Some st \<Rightarrow>
          (let hour = (if pmSet st \<and> p_hour st < 12 then p_hour st + 12
                       else if amSet st \<and> p_hour st = 12 then 0
                       else p_hour st);
               t = time_Date 0 1 1 hour (p_min st) (p_sec st) (p_nsec st) UTC
           in if p_zoneOffset st \<noteq> - 1
              then Some (t\<lparr>unix := unix t - p_zoneOffset st,
                           zone := FixedZone [] (p_zoneOffset st)\<rparr>)
              else Some t))"

text \<open>\<open>appendInt\<close>: a non-negative number in decimal, padded with zeros to \<open>width\<close>.\<close>

function utoa :: "int \<Rightarrow> string" where
  "utoa n = (if n < 10 then [char_of (48 + n)] else utoa (n div 10) @ [char_of (48 + n mod 10)])"
  by pat_completeness auto
termination
  by (relation "measure nat") auto

definition appendInt :: "int \<Rightarrow> nat \<Rightarrow> string" where
  "appendInt x width =
     (if x < 0 then CHR ''-'' # utoa (- x)
      else (let ds = utoa x in replicate (width - length ds) (CHR ''0'') @ ds))"

definition appendNano :: "int \<Rightarrow> std \<Rightarrow> string" where
  "appendNano nanosec s =
     (case s of
        stdFracSecond0 n dot \<Rightarrow> dot # take n (appendInt nanosec 9)
      | stdFracSecond9 n dot \<Rightarrow>
          (if n = 0 \<or> nanosec = 0 then []
           else (let b = rev (dropWhile (\<lambda>c. c = CHR ''0'') (rev (dot # take n (appendInt nanosec 9))))
                 in if b \<noteq> [] \<and> commaOrPeriod (last b) then butlast b else b))
      | _ \<Rightarrow> [])"

text \<open>The text one layout element stands for; nothing is written for \<open>stdOther\<close>.\<close>

definition formatStd :: "std \<Rightarrow> gotime \<Rightarrow> string" where
  "formatStd s t =
     (if s = stdHour then appendInt (Hour t) 2
      else if s = stdHour12 \<or> s = stdZeroHour12 then
        (let hr = Hour t mod 12
         in appendInt (if hr = 0 then 12 else hr) (if s = stdZeroHour12 then 2 else 0))
      else if s = stdMinute then appendInt (Minute t) 0
      else if s = stdZeroMinute then appendInt (Minute t) 2
      else if s = stdSecond then appendInt (Second t) 0
      else if s = stdZeroSecond then appendInt (Second t) 2
      else if s = stdPM then (if Hour t \<ge> 12 then ''PM'' else ''AM'')
      else if s = stdNumColonTZ then
        (let z = zoneOffset (zone t) (unix t) sdiv 60;
             sign = (if z < 0 then CHR ''-'' else CHR ''+'');
             z1 = \<bar>z\<bar>
         in sign # appendInt (z1 sdiv 60) 2 @ CHR '':'' # appendInt (z1 smod 60) 2)
      else appendNano (Nanosecond t) s)"

function formatLoop :: "string \<Rightarrow> gotime \<Rightarrow> string" where
  "formatLoop layout t =
     (case nextStdChunk layout of
        (prefix, s, suffix) \<Rightarrow>
          prefix @ (if s = stdNone then [] else formatStd s t @ formatLoop suffix t))"
  by pat_completeness auto
termination
  by (relation "measure (\<lambda>(layout, t). length layout)")
     (auto dest: nextStdChunk_shorter [OF sym])

definition time_Format :: "gotime \<Rightarrow> string \<Rightarrow> string" where
  "time_Format t layout = formatLoop layout t"

section \<open>The row stores\<close>

text \<open>
  Modelled from the spec: the fixed-width columns \<open>proto.ColTime\<close> and
  \<open>proto.ColTime64\<close> of the wire codec, which are not part of this repository.  The
  spec makes the tick the only value the store holds: seconds since midnight (Time),
  or units of \<open>10^-p\<close> seconds since midnight at the declared precision \<open>p\<close> (Time64).
  Of a calendar instant that is written, the time-of-day components are extracted
  directly, so \<open>Append\<close> takes an instant to the tick of its clock reading (the zero
  instant \<open>time.Time{}\<close> reads 00:00:00 and is the tick 0); \<open>Row\<close> gives back the
  instant that lies the tick after the midnight of the sentinel day 1970-01-01, in
  UTC.  Reading a row that does not exist is a panic (an index out of range).
\<close>

type_synonym ColTime = "int list"

definition ColTime_Append :: "ColTime \<Rightarrow> gotime \<Rightarrow> ColTime" where
  "ColTime_Append c t = c @ [Hour t * 3600 + Minute t * 60 + Second t]"

definition ColTime_Row :: "ColTime \<Rightarrow> int \<Rightarrow> error + gotime" where
  "ColTime_Row c i =
     (if 0 \<le> i \<and> i < int (length c)
      then Inr (time_Date 1970 1 1 0 0 (c ! nat i) 0 UTC)
      else Inl (Panic ''index out of range''))"

definition ColTime_Rows :: "ColTime \<Rightarrow> int" where
  "ColTime_Rows c = int (length c)"

definition ColTime_Reset :: "ColTime \<Rightarrow> ColTime" where
  "ColTime_Reset c = []"

text \<open>
  Modelled from the spec: \<open>proto.ColTime64\<close>, the ticks with the declared precision
  (\<open>WithPrecision\<close> sets it); a column whose precision was never set has precision 0.
\<close>

record ColTime64 =
  Data :: "int list"
  Precision :: nat
  PrecisionSet :: bool

text \<open>The number of nanoseconds in one tick at precision \<open>p\<close>.\<close>

definition tickNanos :: "nat \<Rightarrow> int" where
  "tickNanos p = 10 ^ (9 - p)"

definition ColTime64_WithPrecision :: "ColTime64 \<Rightarrow> nat \<Rightarrow> ColTime64" where
  "ColTime64_WithPrecision c p = c\<lparr>Precision := p, PrecisionSet := True\<rparr>"

definition ColTime64_Append :: "ColTime64 \<Rightarrow> gotime \<Rightarrow> ColTime64" where
  "ColTime64_Append c t =
     c\<lparr>Data := Data c @
          [((Hour t * 3600 + Minute t * 60 + Second t) * 1000000000 + Nanosecond t)
             div tickNanos (Precision c)]\<rparr>"

definition ColTime64_Row :: "ColTime64 \<Rightarrow> int \<Rightarrow> error + gotime" where
  "ColTime64_Row c i =
     (if 0 \<le> i \<and> i < int (length (Data c))
      then Inr (time_Date 1970 1 1 0 0 0 ((Data c ! nat i) * tickNanos (Precision c)) UTC)
      else Inl (Panic ''index out of range''))"

definition ColTime64_Rows :: "ColTime64 \<Rightarrow> int" where
  "ColTime64_Rows c = int (length (Data c))"

definition ColTime64_Reset :: "ColTime64 \<Rightarrow> ColTime64" where
  "ColTime64_Reset c = c\<lparr>Data := []\<rparr>"

section \<open>Host values\<close>

text \<open>\<open>sql.NullTime\<close>.\<close>

datatype NullTime = NullTime (nt_Time: gotime) (Valid: bool)

text \<open>
  The \<open>any\<close> handed to \<open>Append\<close> and \<open>AppendRow\<close>, by dynamic type: the types the two
  type switches name, a \<open>driver.Valuer\<close> of some other type (its type name and what
  \<open>Value()\<close> returns, \<open>None\<close> when it returns an error), and a value of any other type
  (its type name).  A pointer is \<open>None\<close> when nil.
\<close>

datatype anyv =
    VInt64 int
  | VInt64Ptr "int option"
  | VTime gotime
  | VTimePtr "gotime option"
  | VNullTime NullTime
  | VNullTimePtr "NullTime option"
  | VNil
  | VString string
  | VInt64s "int list"
  | VInt64Ptrs "int option list"
  | VTimes "gotime list"
  | VTimePtrs "gotime option list"
  | VNullTimes "NullTime list"
  | VNullTimePtrs "NullTime option list"
  | VStrings "string list"
  | VValuer string "anyv option"
  | VOther string

text \<open>What \<open>fmt.Sprintf("%T", v)\<close> prints.\<close>

fun typeName :: "anyv \<Rightarrow> string" where
  "typeName (VInt64 _) = ''int64''"
| "typeName (VInt64Ptr _) = ''*int64''"
| "typeName (VTime _) = ''time.Time''"
| "typeName (VTimePtr _) = ''*time.Time''"
| "typeName (VNullTime _) = ''sql.NullTime''"
| "typeName (VNullTimePtr _) = ''*sql.NullTime''"
| "typeName VNil = ''<nil>''"
| "typeName (VString _) = ''string''"
| "typeName (VInt64s _) = ''[]int64''"
| "typeName (VInt64Ptrs _) = ''[]*int64''"
| "typeName (VTimes _) = ''[]time.Time''"
| "typeName (VTimePtrs _) = ''[]*time.Time''"
| "typeName (VNullTimes _) = ''[]sql.NullTime''"
| "typeName (VNullTimePtrs _) = ''[]*sql.NullTime''"
| "typeName (VStrings _) = ''[]string''"
| "typeName (VValuer ty _) = ty"
| "typeName (VOther ty) = ty"

text \<open>
  The destination of \<open>ScanRow\<close>, by dynamic type: the pointer types the type switches
  name, an \<open>sql.Scanner\<close> of some other type (its type name and the error its \<open>Scan\<close>
  returns for a value, \<open>None\<close> for nil), and a destination of any other type.
\<close>

datatype dest =
    DTime
  | DTimeRef
  | DInt64
  | DInt64Ref
  | DNullTime
  | DString
  | DStringRef
  | DScanner string "gotime \<Rightarrow> error option"
  | DOther string

fun destType :: "dest \<Rightarrow> string" where
  "destType DTime = ''*time.Time''"
| "destType DTimeRef = ''**time.Time''"
| "destType DInt64 = ''*int64''"
| "destType DInt64Ref = ''**int64''"
| "destType DNullTime = ''*sql.NullTime''"
| "destType DString = ''*string''"
| "destType DStringRef = ''**string''"
| "destType (DScanner ty _) = ty"
| "destType (DOther ty) = ty"

text \<open>
  What a successful \<open>ScanRow\<close> has written: the value now behind the destination
  pointer (behind a fresh pointer for the pointer-to-pointer forms), or the value
  handed to the destination's own \<open>Scan\<close>.
\<close>

datatype written =
    WTime gotime
  | WTimeRef gotime
  | WInt64 int
  | WInt64Ref int
  | WNullTime NullTime
  | WString string
  | WStringRef string
  | WScanned gotime

section \<open>The columns\<close>

text \<open>
  Both column structs have the fields \<open>chType\<close>, \<open>timezone\<close> (a \<open>*time.Location\<close>,
  \<open>None\<close> when nil), \<open>name\<close> and \<open>col\<close>; they differ in the type of \<open>col\<close>.
\<close>

record 'c column =
  chType :: string
  timezone :: "location option"
  name :: string
  col :: 'c

type_synonym Time = "ColTime column"
type_synonym Time64 = "ColTime64 column"

definition defaultTimeFormat :: string where
  "defaultTimeFormat = ''15:04:05''"

definition defaultTime64Format :: string where
  "defaultTime64Format = ''15:04:05.999999999''"

text \<open>The prefix \<open>Time('\<close> and the suffix \<open>')\<close> of a descriptor with a zone.\<close>

definition quote :: char where
  "quote = CHR 0x27"

subsection \<open>Time\<close>


definition Time_Type :: "Time \<Rightarrow> string" where
  "Time_Type c = chType c"

definition Time_Rows :: "Time \<Rightarrow> int" where
  "Time_Rows c = ColTime_Rows (col c)"

definition Time_row :: "Time \<Rightarrow> int \<Rightarrow> error + gotime" where
  "Time_row c i =
     (case ColTime_Row (col c) i of
        Inl e \<Rightarrow> Inl e
      | Inr t \<Rightarrow> Inr (case timezone c of Some l \<Rightarrow> time_In t l | None \<Rightarrow> t))"

text \<open>
  \<open>Time.ScanRow\<close>.  The type switch comes first: a destination of an unsupported type
  is refused before any row is read.
\<close>

definition Time_ScanRow :: "Time \<Rightarrow> dest \<Rightarrow> int \<Rightarrow> error + written" where
  "Time_ScanRow c d row =
     (case d of
        DTime \<Rightarrow> (case Time_row c row of Inl e \<Rightarrow> Inl e | Inr t \<Rightarrow> Inr (WTime t))
      | DTimeRef \<Rightarrow> (case Time_row c row of Inl e \<Rightarrow> Inl e | Inr t \<Rightarrow> Inr (WTimeRef t))
      | DInt64 \<Rightarrow>
          (case Time_row c row of Inl e \<Rightarrow> Inl e
           | Inr t \<Rightarrow> Inr (WInt64 (Hour t * 3600 + Minute t * 60 + Second t)))
      | DInt64Ref \<Rightarrow>
          (case Time_row c row of Inl e \<Rightarrow> Inl e
           | Inr t \<Rightarrow> Inr (WInt64Ref (Hour t * 3600 + Minute t * 60 + Second t)))
      | DNullTime \<Rightarrow>
          (case Time_row c row of Inl e \<Rightarrow> Inl e | Inr t \<Rightarrow> Inr (WNullTime (NullTime t True)))
      | DString \<Rightarrow>
          (case Time_row c row of Inl e \<Rightarrow> Inl e
           | Inr t \<Rightarrow> Inr (WString (time_Format t defaultTimeFormat)))
      | DStringRef \<Rightarrow>
          (case Time_row c row of Inl e \<Rightarrow> Inl e
           | Inr t \<Rightarrow> Inr (WStringRef (time_Format t defaultTimeFormat)))
      | DScanner ty scan \<Rightarrow>
          (case Time_row c row of Inl e \<Rightarrow> Inl e
           | Inr t \<Rightarrow> (case scan t of Some e \<Rightarrow> Inl e | None \<Rightarrow> Inr (WScanned t)))
      | DOther ty \<Rightarrow> Inl (ColumnConverterError ''ScanRow'' ty ''Time'' []))"

text \<open>
  The block the source repeats wherever it takes a count of seconds since midnight to
  an instant: \<open>hours := seconds / 3600\<close>, \<open>minutes := (seconds % 3600) / 60\<close>,
  \<open>secs := seconds % 60\<close>, then \<open>time.Date(1970, 1, 1, hours, minutes, secs, 0, loc)\<close>.
\<close>

definition Time_fromSeconds :: "int \<Rightarrow> location \<Rightarrow> gotime" where
  "Time_fromSeconds seconds l =
     (let hours = seconds sdiv 3600;
          minutes = (seconds smod 3600) sdiv 60;
          secs = seconds smod 60
      in time_Date 1970 1 1 hours minutes secs 0 l)"

definition Time_formats :: "string list" where
  "Time_formats =
     [''15:04:05'',
      ''15:04'',
      ''15:04:05.999'',
      ''15:04:05.999999'',
      ''15:04:05.999999999'',
      ''3:04:05 PM'',
      ''3:04 PM'',
      ''15:04:05 -07:00'',
      ''15:04:05.999 -07:00'']"

text \<open>The loop over the layouts: the result of the first layout that parses the value.\<close>

fun tryFormats :: "string list \<Rightarrow> string \<Rightarrow> gotime option" where
  "tryFormats [] v = None"
| "tryFormats (f # fs) v =
     (case time_Parse f v of Some tv \<Rightarrow> Some tv | None \<Rightarrow> tryFormats fs v)"

definition Time_parseTime :: "Time \<Rightarrow> string \<Rightarrow> error + gotime" where
  "Time_parseTime c v =
     (let l = (case timezone c of Some tz \<Rightarrow> tz | None \<Rightarrow> UTC)
      in case tryFormats Time_formats v of
           Some tv \<Rightarrow>
             Inr (time_Date 1970 1 1 (Hour tv) (Minute tv) (Second tv) (Nanosecond tv) l)
         | None \<Rightarrow>
             (case strconv_ParseInt v 64 of
                Inr seconds \<Rightarrow> Inr (Time_fromSeconds seconds l)
              | Inl _ \<Rightarrow> Inl (Errorf (''cannot parse time value: '' @ v))))"

definition Time_push :: "Time \<Rightarrow> gotime \<Rightarrow> Time" where
  "Time_push c t = c\<lparr>col := ColTime_Append (col c) t\<rparr>"

text \<open>
  \<open>Time.AppendRow\<close>: the column after the call and the error returned, if any.
  \<open>Time_push\<close> is \<open>col.col.Append\<close>.  A nil \<open>*sql.NullTime\<close> is dereferenced by
  \<open>v.Valid\<close>, which panics.
\<close>

fun Time_AppendRow :: "Time \<Rightarrow> anyv \<Rightarrow> Time \<times> error option" where
  "Time_AppendRow c (VInt64 v) = (Time_push c (Time_fromSeconds v UTC), None)"
| "Time_AppendRow c (VInt64Ptr (Some v)) = (Time_push c (Time_fromSeconds v UTC), None)"
| "Time_AppendRow c (VInt64Ptr None) = (Time_push c zeroTime, None)"
| "Time_AppendRow c (VTime t) = (Time_push c t, None)"
| "Time_AppendRow c (VTimePtr (Some t)) = (Time_push c t, None)"
| "Time_AppendRow c (VTimePtr None) = (Time_push c zeroTime, None)"
| "Time_AppendRow c (VNullTime v) =
     (if Valid v then (Time_push c (nt_Time v), None) else (Time_push c zeroTime, None))"
| "Time_AppendRow c (VNullTimePtr (Some v)) =
     (if Valid v then (Time_push c (nt_Time v), None) else (Time_push c zeroTime, None))"
| "Time_AppendRow c (VNullTimePtr None) = (c, Some (Panic ''nil pointer dereference''))"
| "Time_AppendRow c VNil = (Time_push c zeroTime, None)"
| "Time_AppendRow c (VString v) =
     (case Time_parseTime c v of
        Inl err \<Rightarrow> (c, Some err)
      | Inr timeValue \<Rightarrow> (Time_push c timeValue, None))"
| "Time_AppendRow c (VValuer ty None) =
     (c, Some (ColumnConverterError ''AppendRow'' ''Time'' ty ''could not get driver.Valuer value''))"
| "Time_AppendRow c (VValuer ty (Some val)) = Time_AppendRow c val"
| "Time_AppendRow c v = (c, Some (ColumnConverterError ''AppendRow'' ''Time'' (typeName v) []))"

text \<open>The loop of \<open>Append\<close> over a \<open>[]string\<close>: it returns at the first value that does not parse.\<close>

fun Time_appendStrings :: "Time \<Rightarrow> string list \<Rightarrow> Time \<times> error option" where
  "Time_appendStrings c [] = (c, None)"
| "Time_appendStrings c (v # vs) =
     (case Time_parseTime c v of
        Inl err \<Rightarrow> (c, Some err)
      | Inr val \<Rightarrow> Time_appendStrings (Time_push c val) vs)"

text \<open>
  The iteration of \<open>Append\<close> over \<open>[]sql.NullTime\<close> and \<open>[]*sql.NullTime\<close>: each element
  goes to \<open>AppendRow\<close>, whose error is dropped; a panic is not.
\<close>

fun Time_appendRows :: "Time \<Rightarrow> anyv list \<Rightarrow> Time \<times> error option" where
  "Time_appendRows c [] = (c, None)"
| "Time_appendRows c (v # vs) =
     (case Time_AppendRow c v of
        (c1, Some (Panic m)) \<Rightarrow> (c1, Some (Panic m))
      | (c1, _) \<Rightarrow> Time_appendRows c1 vs)"

definition isNil :: "'a option \<Rightarrow> nat" where
  "isNil p = (if p = None then 1 else 0)"

text \<open>
  \<open>Time.Append\<close>: the column after the call, and the error or the null indicators.
  An \<open>sql.NullTime\<close> or a pointer to one that is passed by itself is no case of the
  switch; it is a \<open>driver.Valuer\<close>, whose value (the wrapped \<open>time.Time\<close>, or nil) is
  then no case of the switch either.
\<close>

fun Time_Append :: "Time \<Rightarrow> anyv \<Rightarrow> Time \<times> (error + nat list)" where
  "Time_Append c (VInt64s v) =
     (foldl (\<lambda>c x. Time_push c (Time_fromSeconds x UTC)) c v, Inr (replicate (length v) 0))"
| "Time_Append c (VInt64Ptrs v) =
     (foldl (\<lambda>c x. case x of Some s \<Rightarrow> Time_push c (Time_fromSeconds s UTC)
                        | None \<Rightarrow> Time_push c zeroTime) c v,
      Inr (map isNil v))"
| "Time_Append c (VTimes v) = (foldl Time_push c v, Inr (replicate (length v) 0))"
| "Time_Append c (VTimePtrs v) =
     (foldl (\<lambda>c x. case x of Some t \<Rightarrow> Time_push c t | None \<Rightarrow> Time_push c zeroTime) c v,
      Inr (map isNil v))"
| "Time_Append c (VNullTimes v) =
     (case Time_appendRows c (map VNullTime v) of
        (c1, Some e) \<Rightarrow> (c1, Inl e)
      | (c1, None) \<Rightarrow> (c1, Inr (replicate (length v) 0)))"
| "Time_Append c (VNullTimePtrs v) =
     (case Time_appendRows c (map VNullTimePtr v) of
        (c1, Some e) \<Rightarrow> (c1, Inl e)
      | (c1, None) \<Rightarrow> (c1, Inr (map isNil v)))"
| "Time_Append c (VStrings v) =
     (case Time_appendStrings c v of
        (c1, Some err) \<Rightarrow> (c1, Inl err)
      | (c1, None) \<Rightarrow> (c1, Inr (replicate (length v) 0)))"
| "Time_Append c (VValuer ty None) =
     (c, Inl (ColumnConverterError ''Append'' ''Time'' ty ''could not get driver.Valuer value''))"
| "Time_Append c (VValuer ty (Some val)) = Time_Append c val"
| "Time_Append c (VNullTime v) =
     (c, Inl (ColumnConverterError ''Append'' ''Time''
                (if Valid v then ''time.Time'' else ''<nil>'') []))"
| "Time_Append c (VNullTimePtr (Some v)) =
     (c, Inl (ColumnConverterError ''Append'' ''Time''
                (if Valid v then ''time.Time'' else ''<nil>'') []))"
| "Time_Append c (VNullTimePtr None) = (c, Inl (Panic ''nil pointer dereference''))"
| "Time_Append c v = (c, Inl (ColumnConverterError ''Append'' ''Time'' (typeName v) []))"

subsection \<open>Time64\<close>

text \<open>
  \<open>Time64.parse\<close>, with the zone registry as the parameter \<open>tzLoad\<close>: the column after
  the call and the error, if any.
\<close>

definition Time64_parse ::
  "(string \<Rightarrow> error + location) \<Rightarrow> Time64 \<Rightarrow> string \<Rightarrow> location option
     \<Rightarrow> Time64 \<times> error option" where
  "Time64_parse tzLoad c t tz =
     (let c1 = c\<lparr>chType := t\<rparr>
      in if strings_HasPrefix t ''Time64('' then
           (if strings_Contains t '','' then
              (let parts = strings_Split t (CHR '','')
               in if length parts \<noteq> 2 then (c1, Some (UnsupportedColumnTypeError t))
                  else
                    (let precisionStr =
                           strings_TrimSuffix (strings_TrimPrefix (parts ! 0) ''Time64('') '')''
                     in case strconv_ParseInt precisionStr 8 of
                          Inl err \<Rightarrow> (c1, Some err)
                        | Inr precision \<Rightarrow>
                            (let c2 = c1\<lparr>col := ColTime64_WithPrecision (col c1) (byte precision)\<rparr>;
                                 timezoneName =
                                   strings_TrimSuffix
                                     (strings_TrimPrefix (parts ! 1) ('' '' @ [quote]))
                                     (quote # '')'')
                             in case tzLoad timezoneName of
                                  Inl err \<Rightarrow> (c2, Some err)
                                | Inr l \<Rightarrow> (c2\<lparr>timezone := Some l\<rparr>, None))))
            else
              (let params = strings_TrimSuffix (strings_TrimPrefix t ''Time64('') '')''
               in case strconv_ParseInt params 8 of
                    Inl err \<Rightarrow> (c1, Some err)
                  | Inr precision \<Rightarrow>
                      (c1\<lparr>col := ColTime64_WithPrecision (col c1) (byte precision),
                          timezone := tz\<rparr>, None)))
         else (c1, Some (UnsupportedColumnTypeError t)))"

definition Time64_Type :: "Time64 \<Rightarrow> string" where
  "Time64_Type c = chType c"

definition Time64_Precision :: "Time64 \<Rightarrow> int \<times> bool" where
  "Time64_Precision c = (int (Precision (col c)), PrecisionSet (col c))"

definition Time64_Rows :: "Time64 \<Rightarrow> int" where
  "Time64_Rows c = ColTime64_Rows (col c)"

definition Time64_row :: "Time64 \<Rightarrow> int \<Rightarrow> error + gotime" where
  "Time64_row c i =
     (case ColTime64_Row (col c) i of
        Inl e \<Rightarrow> Inl e
      | Inr t \<Rightarrow> Inr (case timezone c of Some l \<Rightarrow> time_In t l | None \<Rightarrow> t))"

text \<open>
  \<open>Time64.ScanRow\<close>.  Its type switch has no case for \<open>*string\<close> or \<open>**string\<close>: these
  destinations reach the default branch, and are no \<open>sql.Scanner\<close>.
\<close>

definition Time64_ScanRow :: "Time64 \<Rightarrow> dest \<Rightarrow> int \<Rightarrow> error + written" where
  "Time64_ScanRow c d row =
     (case d of
        DTime \<Rightarrow> (case Time64_row c row of Inl e \<Rightarrow> Inl e | Inr t \<Rightarrow> Inr (WTime t))
      | DTimeRef \<Rightarrow> (case Time64_row c row of Inl e \<Rightarrow> Inl e | Inr t \<Rightarrow> Inr (WTimeRef t))
      | DInt64 \<Rightarrow>
          (case Time64_row c row of Inl e \<Rightarrow> Inl e
           | Inr t \<Rightarrow>
               Inr (WInt64 (Hour t * 3600000 + Minute t * 60000 + Second t * 1000
                              + Nanosecond t sdiv 1000000)))
      | DInt64Ref \<Rightarrow>
          (case Time64_row c row of Inl e \<Rightarrow> Inl e
           | Inr t \<Rightarrow>
               Inr (WInt64Ref (Hour t * 3600000 + Minute t * 60000 + Second t * 1000
                                 + Nanosecond t sdiv 1000000)))
      | DNullTime \<Rightarrow>
          (case Time64_row c row of Inl e \<Rightarrow> Inl e | Inr t \<Rightarrow> Inr (WNullTime (NullTime t True)))
      | DScanner ty scan \<Rightarrow>
          (case Time64_row c row of Inl e \<Rightarrow> Inl e
           | Inr t \<Rightarrow> (case scan t of Some e \<Rightarrow> Inl e | None \<Rightarrow> Inr (WScanned t)))
      | _ \<Rightarrow> Inl (ColumnConverterError ''ScanRow'' (destType d) ''Time64'' []))"

text \<open>
  The block the source repeats wherever it takes an integer to an instant:
  \<open>seconds := milliseconds / 1000\<close>, \<open>hours := seconds / 3600\<close>,
  \<open>minutes := (seconds % 3600) / 60\<close>, \<open>secs := seconds % 60\<close>,
  \<open>nsecs := (milliseconds % 1000) * 1000000\<close>, then
  \<open>time.Date(1970, 1, 1, hours, minutes, secs, nsecs, loc)\<close>.  The precision of the
  column is not read.
\<close>

definition Time64_fromMilliseconds :: "int \<Rightarrow> location \<Rightarrow> gotime" where
  "Time64_fromMilliseconds milliseconds l =
     (let seconds = milliseconds sdiv 1000;
          hours = seconds sdiv 3600;
          minutes = (seconds smod 3600) sdiv 60;
          secs = seconds smod 60;
          nsecs = (milliseconds smod 1000) * 1000000
      in time_Date 1970 1 1 hours minutes secs nsecs l)"

definition Time64_formats :: "string list" where
  "Time64_formats =
     [''15:04:05'',
      ''15:04'',
      ''15:04:05.999'',
      ''15:04:05.999999'',
      ''15:04:05.999999999'',
      ''3:04:05 PM'',
      ''3:04 PM'',
      ''15:04:05 -07:00'',
      ''15:04:05.999 -07:00'',
      ''15:04:05.999999 -07:00'',
      ''15:04:05.999999999 -07:00'']"

definition Time64_parseTime :: "Time64 \<Rightarrow> string \<Rightarrow> error + gotime" where
  "Time64_parseTime c v =
     (let l = (case timezone c of Some tz \<Rightarrow> tz | None \<Rightarrow> UTC)
      in case tryFormats Time64_formats v of
           Some tv \<Rightarrow>
             Inr (time_Date 1970 1 1 (Hour tv) (Minute tv) (Second tv) (Nanosecond tv) l)
         | None \<Rightarrow>
             (case strconv_ParseInt v 64 of
                Inr milliseconds \<Rightarrow> Inr (Time64_fromMilliseconds milliseconds l)
              | Inl _ \<Rightarrow> Inl (Errorf (''cannot parse time64 value: '' @ v))))"

definition Time64_push :: "Time64 \<Rightarrow> gotime \<Rightarrow> Time64" where
  "Time64_push c t = c\<lparr>col := ColTime64_Append (col c) t\<rparr>"

text \<open>\<open>Time64.AppendRow\<close>; \<open>Time64_push\<close> is \<open>col.col.Append\<close>.\<close>

fun Time64_AppendRow :: "Time64 \<Rightarrow> anyv \<Rightarrow> Time64 \<times> error option" where
  "Time64_AppendRow c (VInt64 v) = (Time64_push c (Time64_fromMilliseconds v UTC), None)"
| "Time64_AppendRow c (VInt64Ptr (Some v)) = (Time64_push c (Time64_fromMilliseconds v UTC), None)"
| "Time64_AppendRow c (VInt64Ptr None) = (Time64_push c zeroTime, None)"
| "Time64_AppendRow c (VTime t) = (Time64_push c t, None)"
| "Time64_AppendRow c (VTimePtr (Some t)) = (Time64_push c t, None)"
| "Time64_AppendRow c (VTimePtr None) = (Time64_push c zeroTime, None)"
| "Time64_AppendRow c (VNullTime v) =
     (if Valid v then (Time64_push c (nt_Time v), None) else (Time64_push c zeroTime, None))"
| "Time64_AppendRow c (VNullTimePtr (Some v)) =
     (if Valid v then (Time64_push c (nt_Time v), None) else (Time64_push c zeroTime, None))"
| "Time64_AppendRow c (VNullTimePtr None) = (c, Some (Panic ''nil pointer dereference''))"
| "Time64_AppendRow c (VString v) =
     (case Time64_parseTime c v of
        Inl err \<Rightarrow> (c, Some err)
      | Inr timeValue \<Rightarrow> (Time64_push c timeValue, None))"
| "Time64_AppendRow c VNil = (Time64_push c zeroTime, None)"
| "Time64_AppendRow c (VValuer ty None) =
     (c, Some (ColumnConverterError ''AppendRow'' ''Time64'' ty ''could not get driver.Valuer value''))"
| "Time64_AppendRow c (VValuer ty (Some val)) = Time64_AppendRow c val"
| "Time64_AppendRow c v = (c, Some (ColumnConverterError ''AppendRow'' ''Time64'' (typeName v) []))"

fun Time64_appendStrings :: "Time64 \<Rightarrow> string list \<Rightarrow> Time64 \<times> error option" where
  "Time64_appendStrings c [] = (c, None)"
| "Time64_appendStrings c (v # vs) =
     (case Time64_parseTime c v of
        Inl err \<Rightarrow> (c, Some err)
      | Inr val \<Rightarrow> Time64_appendStrings (Time64_push c val) vs)"

fun Time64_appendRows :: "Time64 \<Rightarrow> anyv list \<Rightarrow> Time64 \<times> error option" where
  "Time64_appendRows c [] = (c, None)"
| "Time64_appendRows c (v # vs) =
     (case Time64_AppendRow c v of
        (c1, Some (Panic m)) \<Rightarrow> (c1, Some (Panic m))
      | (c1, _) \<Rightarrow> Time64_appendRows c1 vs)"

text \<open>\<open>Time64.Append\<close>.\<close>

fun Time64_Append :: "Time64 \<Rightarrow> anyv \<Rightarrow> Time64 \<times> (error + nat list)" where
  "Time64_Append c (VInt64s v) =
     (foldl (\<lambda>c x. Time64_push c (Time64_fromMilliseconds x UTC)) c v,
      Inr (replicate (length v) 0))"
| "Time64_Append c (VInt64Ptrs v) =
     (foldl (\<lambda>c x. case x of Some ms \<Rightarrow> Time64_push c (Time64_fromMilliseconds ms UTC)
                        | None \<Rightarrow> Time64_push c zeroTime) c v,
      Inr (map isNil v))"
| "Time64_Append c (VTimes v) = (foldl Time64_push c v, Inr (replicate (length v) 0))"
| "Time64_Append c (VTimePtrs v) =
     (foldl (\<lambda>c x. case x of Some t \<Rightarrow> Time64_push c t | None \<Rightarrow> Time64_push c zeroTime) c v,
      Inr (map isNil v))"
| "Time64_Append c (VStrings v) =
     (case Time64_appendStrings c v of
        (c1, Some err) \<Rightarrow> (c1, Inl err)
      | (c1, None) \<Rightarrow> (c1, Inr (replicate (length v) 0)))"
| "Time64_Append c (VNullTimes v) =
     (case Time64_appendRows c (map VNullTime v) of
        (c1, Some e) \<Rightarrow> (c1, Inl e)
      | (c1, None) \<Rightarrow> (c1, Inr (replicate (length v) 0)))"
| "Time64_Append c (VNullTimePtrs v) =
     (case Time64_appendRows c (map VNullTimePtr v) of
        (c1, Some e) \<Rightarrow> (c1, Inl e)
      | (c1, None) \<Rightarrow> (c1, Inr (map isNil v)))"
| "Time64_Append c (VValuer ty None) =
     (c, Inl (ColumnConverterError ''Append'' ''Time64'' ty ''could not get driver.Valuer value''))"
| "Time64_Append c (VValuer ty (Some val)) = Time64_Append c val"
| "Time64_Append c (VNullTime v) =
     (c, Inl (ColumnConverterError ''Append'' ''Time64''
                (if Valid v then ''time.Time'' else ''<nil>'') []))"
| "Time64_Append c (VNullTimePtr (Some v)) =
     (c, Inl (ColumnConverterError ''Append'' ''Time64''
                (if Valid v then ''time.Time'' else ''<nil>'') []))"
| "Time64_Append c (VNullTimePtr None) = (c, Inl (Panic ''nil pointer dereference''))"
| "Time64_Append c v = (c, Inl (ColumnConverterError ''Append'' ''Time64'' (typeName v) []))"

text \<open>
  The text that \<open>Time64.parse\<close> hands to \<open>strconv.ParseInt\<close> as the precision: what
  stands before the first comma of the descriptor (all of it when there is no comma),
  without the prefix \<open>Time64(\<close> and the suffix \<open>)\<close>.
\<close>

definition Time64_precisionParam :: "string \<Rightarrow> string" where
  "Time64_precisionParam t =
     strings_TrimSuffix (strings_TrimPrefix (hd (strings_Split t (CHR '',''))) ''Time64('') '')''"

section \<open>Example columns\<close>

text \<open>
  A registry that knows the zone \<open>UTC\<close> only, and columns as \<open>parse\<close> leaves them:
  a Time column without a zone, and Time64 columns of precision 6 and 0.
\<close>

definition exampleRegistry :: "string \<Rightarrow> error + location" where
  "exampleRegistry n = (if n = ''UTC'' then Inr UTC else Inl (RegistryError n))"

definition exampleTime :: Time where
  "exampleTime = \<lparr>chType = ''Time'', timezone = None, name = ''t'', col = []\<rparr>"

definition exampleTime64 :: Time64 where
  "exampleTime64 =
     \<lparr>chType = ''Time64(6)'', timezone = None, name = ''t'',
      col = \<lparr>Data = [], Precision = 6, PrecisionSet = True\<rparr>\<rparr>"

definition exampleTime64sec :: Time64 where
  "exampleTime64sec =
     \<lparr>chType = ''Time64(0)'', timezone = None, name = ''t'',
      col = \<lparr>Data = [], Precision = 0, PrecisionSet = True\<rparr>\<rparr>"

text \<open>The columns hold no zone, or the zone UTC.\<close>

definition zoneless :: "'c column \<Rightarrow> bool" where
  "zoneless c = (timezone c = None \<or> timezone c = Some UTC)"

section \<open>Facts about the library model\<close>

lemma neg_pred_div:
  fixes lo base :: int
  assumes "0 < base"
  shows "(- lo - 1) div base = - (lo div base) - 1"
proof -
  define q where "q = lo div base"
  define r where "r = lo mod base"
  have lo: "lo = q * base + r" by (simp add: q_def r_def)
  have r: "0 \<le> r" "r < base" using assms by (simp_all add: r_def)
  have "- lo - 1 = (- q - 1) * base + (base - r - 1)"
    by (simp add: lo algebra_simps)
  then have "(- lo - 1) div base = ((- q - 1) * base + (base - r - 1)) div base"
    by (rule arg_cong)
  also have "\<dots> = (- q - 1) + (base - r - 1) div base"
    by (rule div_mult_self3) (use assms in simp)
  also have "(base - r - 1) div base = 0"
    using r by (intro div_pos_pos_trivial) auto
  finally show ?thesis by (simp add: q_def)
qed

text \<open>\<open>norm\<close> is division with remainder, rounding down.\<close>

lemma norm_eq:
  assumes "0 < base"
  shows "norm hi lo base = (hi + lo div base, lo mod base)"
proof (cases "lo < 0")
  case True
  define n where "n = (- lo - 1) sdiv base + 1"
  have nn: "n = (- lo - 1) div base + 1"
    using True assms by (simp add: n_def signed_divide_int_def sgn_if)
  have n_eq: "n = - (lo div base)"
    by (simp add: nn neg_pred_div [OF assms])
  have lo1: "lo + n * base = lo mod base"
    by (simp add: n_eq minus_mult_div_eq_mod mult.commute)
  have "lo mod base < base" using assms by simp
  then show ?thesis
    using True n_eq lo1 unfolding norm_def Let_def n_def [symmetric]
    by simp
next
  case False
  show ?thesis
  proof (cases "lo \<ge> base")
    case True
    then have "lo sdiv base = lo div base"
      using assms False by (simp add: signed_divide_int_def sgn_if)
    then show ?thesis
      using True False unfolding norm_def Let_def
      by (simp add: minus_mult_div_eq_mod mult.commute)
  next
    case F2: False
    then show ?thesis
      using False unfolding norm_def Let_def by simp
  qed
qed

lemma split_units:
  fixes a :: int
  shows "a div 24 * 86400 + a mod 24 * 3600 = a * 3600"
    and "a div 60 * 3600 + a mod 60 * 60 = a * 60"
    and "a div 60 * 60 + a mod 60 = a"
  by presburger+

lemma carry_sum:
  fixes A :: int
  assumes "A * 86400 + B * 3600 = h1 * 3600" "h1 * 3600 = h * 3600 + C * 3600"
    "C * 3600 + D * 60 = m1 * 60" "m1 * 60 = m * 60 + E * 60" "E * 60 + F = s1"
  shows "(1 + A - 1) * 86400 + B * 3600 + D * 60 + F = h * 3600 + m * 60 + s1"
  using assms by (simp add: algebra_simps)

text \<open>
  On the sentinel day and in UTC, \<open>time.Date\<close> is the instant that many hours,
  minutes, seconds and nanoseconds after the midnight of 1970-01-01, whatever the
  signs and sizes of the four numbers.
\<close>

lemma time_Date_epoch_UTC:
  "time_Date 1970 1 1 h m s ns UTC =
     \<lparr>unix = h * 3600 + m * 60 + s + ns div 1000000000, nano = ns mod 1000000000, zone = UTC\<rparr>"
proof -
  define s1 where "s1 = s + ns div 1000000000"
  define m1 where "m1 = m + s1 div 60"
  define h1 where "h1 = h + m1 div 60"
  have u: "(1 + h1 div 24 - 1) * 86400 + h1 mod 24 * 3600 + m1 mod 60 * 60 + s1 mod 60
             = h * 3600 + m * 60 + s1"
  proof -
    define A B C D E F where "A = h1 div 24" and "B = h1 mod 24" and "C = m1 div 60"
      and "D = m1 mod 60" and "E = s1 div 60" and "F = s1 mod 60"
    have "A * 86400 + B * 3600 = h1 * 3600" unfolding A_def B_def by (rule split_units)
    moreover have "h1 * 3600 = h * 3600 + C * 3600" by (simp add: h1_def C_def algebra_simps)
    moreover have "C * 3600 + D * 60 = m1 * 60" unfolding C_def D_def by (rule split_units)
    moreover have "m1 * 60 = m * 60 + E * 60" by (simp add: m1_def E_def algebra_simps)
    moreover have "E * 60 + F = s1" unfolding E_def F_def by (rule split_units)
    ultimately have "(1 + A - 1) * 86400 + B * 3600 + D * 60 + F = h * 3600 + m * 60 + s1"
      by (rule carry_sum)
    then show ?thesis by (simp only: A_def B_def D_def F_def)
  qed
  have "time_Date 1970 1 1 h m s ns UTC =
          \<lparr>unix = (1 + h1 div 24 - 1) * 86400 + h1 mod 24 * 3600 + m1 mod 60 * 60 + s1 mod 60,
           nano = ns mod 1000000000, zone = UTC\<rparr>"
    by (simp add: time_Date_def norm_eq Let_def UTC_def zoneLookup_def daysSinceEpoch_def
        daysBefore_def isLeap_def s1_def m1_def h1_def)
  with u show ?thesis by (simp add: s1_def)
qed

text \<open>
  For an instant in UTC that a 64-bit count of seconds can hold without the wrap, the
  seconds of the day are the Unix seconds modulo a day.
\<close>

lemma wallSec_UTC:
  assumes "zone t = UTC" "- 9223372028715321600 \<le> unix t" "unix t < 2 ^ 63"
  shows "wallSec t = unix t mod 86400"
proof -
  have "0 \<le> unix t + 9223372028715321600" "unix t + 9223372028715321600 < 2 ^ 64"
    using assms(2,3) by simp_all
  then have a: "absSec t = unix t + 9223372028715321600"
    using assms(1)
    by (simp add: absSec_def unixToAbsolute_def zoneOffset_def zoneLookup_def UTC_def)
  have "(unix t + 106751991073094 * 86400) mod 86400 = unix t mod 86400"
    by (rule mod_mult_self1)
  then show ?thesis by (simp add: wallSec_def a)
qed

text \<open>The three clock fields make up the seconds of the day.\<close>

lemma clock_sum: "Hour t * 3600 + Minute t * 60 + Second t = wallSec t"
proof -
  define w where "w = wallSec t"
  have "w mod 3600 mod 60 = w mod 60"
    by (rule mod_mod_cancel) simp
  then have "w div 3600 * 3600 + (w mod 3600 div 60 * 60 + w mod 60) = w"
    by (metis mult_div_mod_eq mult.commute)
  then show ?thesis by (simp add: Hour_def Minute_def Second_def w_def)
qed

lemma wallSec_range: "0 \<le> wallSec t" "wallSec t < 86400"
  by (simp_all add: wallSec_def)

text \<open>Truncating division takes a count apart into parts that add up to it.\<close>

lemma sdiv_smod_parts:
  fixes v :: int
  shows "v sdiv 3600 * 3600 + (v smod 3600) sdiv 60 * 60 + v smod 60 = v"
proof -
  have a: "v sdiv 3600 * 3600 + v smod 3600 = v" by (rule sdiv_mult_smod_eq)
  have b: "(v smod 3600) sdiv 60 * 60 + (v smod 3600) smod 60 = v smod 3600"
    by (rule sdiv_mult_smod_eq)
  have c: "(v smod 3600) smod 60 = v smod 60"
  proof -
    have m: "\<bar>v\<bar> mod 3600 mod 60 = \<bar>v\<bar> mod 60" by (rule mod_mod_cancel) simp
    show ?thesis
    proof (cases "\<bar>v\<bar> mod 3600 = 0")
      case True
      with m have "\<bar>v\<bar> mod 60 = 0" by simp
      with True show ?thesis by (simp add: signed_modulo_int_def)
    next
      case False
      then have "v \<noteq> 0" by auto
      have pos: "0 < \<bar>v\<bar> mod 3600"
        using False by (simp add: order_less_le)
      have "sgn (sgn v * (\<bar>v\<bar> mod 3600)) = sgn v"
        using pos \<open>v \<noteq> 0\<close> by (simp add: sgn_mult)
      moreover have "\<bar>sgn v * (\<bar>v\<bar> mod 3600)\<bar> = \<bar>v\<bar> mod 3600"
        using \<open>v \<noteq> 0\<close> by (simp add: abs_mult abs_sgn_eq)
      ultimately show ?thesis
        using m by (simp add: signed_modulo_int_def)
    qed
  qed
  from a b c show ?thesis by simp
qed

lemma Time_fromSeconds_UTC:
  "Time_fromSeconds v UTC = \<lparr>unix = v, nano = 0, zone = UTC\<rparr>"
  using sdiv_smod_parts [of v]
  by (simp add: Time_fromSeconds_def Let_def time_Date_epoch_UTC)

text \<open>
  The Time64 block is the instant \<open>v\<close> milliseconds after the midnight of the sentinel
  day, for every \<open>v\<close>.
\<close>

lemma Time64_fromMilliseconds_UTC:
  "Time64_fromMilliseconds v UTC =
     \<lparr>unix = v div 1000, nano = v mod 1000 * 1000000, zone = UTC\<rparr>"
proof -
  define sec where "sec = v sdiv 1000"
  define r where "r = v smod 1000"
  have v: "sec * 1000 + r = v" unfolding sec_def r_def by (rule sdiv_mult_smod_eq)
  have parts: "sec sdiv 3600 * 3600 + (sec smod 3600) sdiv 60 * 60 + sec smod 60 = sec"
    by (rule sdiv_smod_parts)
  have d: "sec + r * 1000000 div 1000000000 = v div 1000"
  proof -
    have "r * 1000000 div 1000000000 = r div 1000" by simp
    moreover have "v div 1000 = sec + r div 1000"
      using v by (metis div_mult_self3 zero_neq_numeral)
    ultimately show ?thesis by simp
  qed
  have m: "r * 1000000 mod 1000000000 = v mod 1000 * 1000000"
  proof -
    have "r * 1000000 mod 1000000000 = r * 1000000 mod (1000 * 1000000)" by simp
    also have "\<dots> = r mod 1000 * 1000000" by (simp only: mult_mod_left)
    also have "r mod 1000 = v mod 1000"
      using v by (metis mod_mult_self3)
    finally show ?thesis .
  qed
  have "Time64_fromMilliseconds v UTC =
          \<lparr>unix = sec sdiv 3600 * 3600 + (sec smod 3600) sdiv 60 * 60 + sec smod 60
                    + r * 1000000 div 1000000000,
           nano = r * 1000000 mod 1000000000, zone = UTC\<rparr>"
    by (simp add: Time64_fromMilliseconds_def Let_def time_Date_epoch_UTC sec_def r_def)
  with parts d m show ?thesis by simp
qed

lemma time_In_UTC: "zone t = UTC \<Longrightarrow> time_In t UTC = t"
  by (simp add: time_In_def)

text \<open>
  A Time column without a zone reads the integer it was given back modulo a day; the
  remainder is the non-negative one, because the clock fields of an instant are.
\<close>

lemma Time_int64_roundtrip:
  assumes "zoneless c" "- 9223372028715321600 \<le> v" "v < 2 ^ 63"
  shows "Time_ScanRow (Time_push c (Time_fromSeconds v UTC)) DInt64 (Time_Rows c)
           = Inr (WInt64 (v mod 86400))"
proof -
  define t where "t = Time_fromSeconds v UTC"
  have t: "unix t = v" "zone t = UTC" by (simp_all add: t_def Time_fromSeconds_UTC)
  have tick: "Hour t * 3600 + Minute t * 60 + Second t = v mod 86400"
    using t assms(2,3) by (simp add: clock_sum wallSec_UTC)
  have row: "ColTime_Row (col (Time_push c t)) (Time_Rows c)
               = Inr \<lparr>unix = v mod 86400, nano = 0, zone = UTC\<rparr>"
    by (simp add: Time_push_def ColTime_Append_def ColTime_Row_def Time_Rows_def ColTime_Rows_def
        tick time_Date_epoch_UTC)
  have tz: "timezone (Time_push c t) = timezone c" by (simp add: Time_push_def)
  have r: "Time_row (Time_push c t) (Time_Rows c)
             = Inr \<lparr>unix = v mod 86400, nano = 0, zone = UTC\<rparr>"
    using assms(1) by (auto simp: Time_row_def row tz zoneless_def time_In_UTC)
  have "0 \<le> v mod 86400" "v mod 86400 < 86400" by simp_all
  then have w: "wallSec \<lparr>unix = v mod 86400, nano = 0, zone = UTC\<rparr> = v mod 86400"
    by (subst wallSec_UTC) simp_all
  show ?thesis
    unfolding t_def [symmetric]
    by (simp add: Time_ScanRow_def r clock_sum w)
qed

lemma tickNanos_dvd:
  assumes "3 \<le> p" "p \<le> 9"
  shows "tickNanos p dvd 1000000" "tickNanos p dvd 1000000000" "0 < tickNanos p"
proof -
  have "(10::int) ^ (9 - p) dvd 10 ^ 6" using assms by (intro le_imp_power_dvd) simp
  then show "tickNanos p dvd 1000000" by (simp add: tickNanos_def)
  have "(10::int) ^ (9 - p) dvd 10 ^ 9" by (intro le_imp_power_dvd) simp
  then show "tickNanos p dvd 1000000000" by (simp add: tickNanos_def)
  show "0 < tickNanos p" by (simp add: tickNanos_def)
qed

text \<open>
  A Time64 column without a zone and of precision 3 to 9 reads the integer it was
  given back modulo the milliseconds of a day.
\<close>

lemma Time64_int64_roundtrip:
  assumes "zoneless c" "3 \<le> Precision (col c)" "Precision (col c) \<le> 9"
    and "- (2 ^ 63) \<le> v" "v < 2 ^ 63"
  shows "Time64_ScanRow (Time64_push c (Time64_fromMilliseconds v UTC)) DInt64 (Time64_Rows c)
           = Inr (WInt64 (v mod 86400000))"
proof -
  define t where "t = Time64_fromMilliseconds v UTC"
  define W where "W = (v div 1000) mod 86400"
  define k where "k = v mod 1000"
  define tn where "tn = tickNanos (Precision (col c))"
  have t: "unix t = v div 1000" "nano t = k * 1000000" "zone t = UTC"
    by (simp_all add: t_def k_def Time64_fromMilliseconds_UTC)
  have k: "0 \<le> k" "k < 1000" by (simp_all add: k_def)
  have W: "0 \<le> W" "W < 86400" by (simp_all add: W_def)
  have vr: "- 9223372028715321600 \<le> v div 1000" "v div 1000 < 2 ^ 63"
    using assms(4,5) by simp_all
  have clock: "Hour t * 3600 + Minute t * 60 + Second t = W"
    using t vr by (simp add: clock_sum wallSec_UTC W_def)
  have dv: "tn dvd W * 1000000000 + k * 1000000"
    using tickNanos_dvd [OF assms(2,3)] by (simp add: tn_def)
  then have exact: "(W * 1000000000 + k * 1000000) div tn * tn = W * 1000000000 + k * 1000000"
    by (rule dvd_div_mult_self)
  have u: "(W * 1000000000 + k * 1000000) div 1000000000 = W"
    using k by simp
  have n: "(W * 1000000000 + k * 1000000) mod 1000000000 = k * 1000000"
    using k by simp
  have row: "ColTime64_Row (col (Time64_push c t)) (Time64_Rows c)
               = Inr \<lparr>unix = W, nano = k * 1000000, zone = UTC\<rparr>"
    using exact u n
    by (simp add: Time64_push_def ColTime64_Append_def ColTime64_Row_def Time64_Rows_def
        ColTime64_Rows_def clock t Nanosecond_def time_Date_epoch_UTC tn_def)
  have tz: "timezone (Time64_push c t) = timezone c" by (simp add: Time64_push_def)
  have r: "Time64_row (Time64_push c t) (Time64_Rows c)
             = Inr \<lparr>unix = W, nano = k * 1000000, zone = UTC\<rparr>"
    using assms(1) by (auto simp: Time64_row_def row tz zoneless_def time_In_UTC)
  define t2 :: gotime where "t2 = \<lparr>unix = W, nano = k * 1000000, zone = UTC\<rparr>"
  have w: "wallSec t2 = W" using W by (subst wallSec_UTC) (simp_all add: t2_def)
  have ms: "Hour t2 * 3600000 + Minute t2 * 60000 + Second t2 * 1000 = W * 1000"
    using clock_sum [of t2] w by (simp add: algebra_simps)
  have fr: "Nanosecond t2 sdiv 1000000 = k"
    using k by (simp add: Nanosecond_def t2_def signed_divide_int_def sgn_if)
  have total: "W * 1000 + k = v mod 86400000"
  proof -
    have "v mod 86400000 = v mod (1000 * 86400)" by simp
    also have "\<dots> = 1000 * (v div 1000 mod 86400) + v mod 1000"
      by (rule zmod_zmult2_eq) simp
    finally show ?thesis by (simp add: W_def k_def)
  qed
  show ?thesis
    unfolding t_def [symmetric]
    using ms fr total
    by (simp add: Time64_ScanRow_def r t2_def [symmetric])
qed

section \<open>Integers written and read back\<close>

lemma sdiv_smod_nonpos:
  fixes x k :: int
  assumes "x \<le> 0" "0 < k"
  shows "x sdiv k \<le> 0" "x smod k \<le> 0"
proof -
  have "0 \<le> \<bar>x\<bar> div k" "0 \<le> \<bar>x\<bar> mod k" using assms(2) by (simp_all add: pos_imp_zdiv_nonneg_iff)
  then show "x sdiv k \<le> 0" "x smod k \<le> 0"
    using assms by (simp_all add: signed_divide_int_def signed_modulo_int_def sgn_if)
qed

text \<open>
  C10.  A negative tick \<open>t\<close> with \<open>-86400 \<le> t < 0\<close> is appended as an \<open>int64\<close> to a Time
  column without a zone.  The write path takes it apart by truncating division into
  an hour, a minute and a second that are zero or negative, and \<open>time.Date\<close> makes of
  them the instant \<open>t\<close> seconds before the midnight of the sentinel day, on the
  previous day.  The clock fields of that instant are not negative and make up
  \<open>t + 86400\<close>.  The read path into an \<open>*int64\<close> is, for every column and row, the
  hour, minute and second of the row's instant as seconds; scanning the row that was
  appended succeeds and yields \<open>t + 86400\<close>, not \<open>t\<close>.
\<close>

theorem Time_negative_tick_wraps:
  assumes "timezone c = None" "- 86400 \<le> t" "t < 0"
  shows "Time_AppendRow c (VInt64 t)
           = (Time_push c (time_Date 1970 1 1 (t sdiv 3600) ((t smod 3600) sdiv 60)
                             (t smod 60) 0 UTC), None)
         \<and> t sdiv 3600 \<le> 0 \<and> (t smod 3600) sdiv 60 \<le> 0 \<and> t smod 60 \<le> 0
         \<and> unix (Time_fromSeconds t UTC) = t
         \<and> 0 \<le> Hour (Time_fromSeconds t UTC) \<and> 0 \<le> Minute (Time_fromSeconds t UTC)
         \<and> 0 \<le> Second (Time_fromSeconds t UTC)
         \<and> Hour (Time_fromSeconds t UTC) * 3600 + Minute (Time_fromSeconds t UTC) * 60
             + Second (Time_fromSeconds t UTC) = t + 86400
         \<and> Time_ScanRow d DInt64 row
             = (case Time_row d row of
                  Inl e \<Rightarrow> Inl e
                | Inr r \<Rightarrow> Inr (WInt64 (Hour r * 3600 + Minute r * 60 + Second r)))
         \<and> Time_ScanRow (fst (Time_AppendRow c (VInt64 t))) DInt64 (Time_Rows c)
             = Inr (WInt64 (t + 86400))"
proof -
  define T where "T = Time_fromSeconds t UTC"
  have T: "unix T = t" "zone T = UTC" by (simp_all add: T_def Time_fromSeconds_UTC)
  have wrap: "t mod 86400 = t + 86400"
  proof -
    have "(t + 86400) mod 86400 = t + 86400"
      using assms(2,3) by (intro mod_pos_pos_trivial) auto
    then show ?thesis by simp
  qed
  have w: "wallSec T = t + 86400"
    using T assms(2,3) wrap by (subst wallSec_UTC) simp_all
  have app: "Time_AppendRow c (VInt64 t)
               = (Time_push c (time_Date 1970 1 1 (t sdiv 3600) ((t smod 3600) sdiv 60)
                                 (t smod 60) 0 UTC), None)"
    by (simp add: Time_fromSeconds_def Let_def)
  have parts: "t sdiv 3600 \<le> 0" "(t smod 3600) sdiv 60 \<le> 0" "t smod 60 \<le> 0"
  proof -
    have le: "t \<le> 0" using assms(3) by simp
    show "t sdiv 3600 \<le> 0" using le by (rule sdiv_smod_nonpos) simp
    show "t smod 60 \<le> 0" using le by (rule sdiv_smod_nonpos) simp
    have "t smod 3600 \<le> 0" using le by (rule sdiv_smod_nonpos) simp
    then show "(t smod 3600) sdiv 60 \<le> 0" by (rule sdiv_smod_nonpos) simp
  qed
  have fields: "0 \<le> Hour T" "0 \<le> Minute T" "0 \<le> Second T"
    using wallSec_range [of T]
    by (simp_all add: Hour_def Minute_def Second_def pos_imp_zdiv_nonneg_iff)
  have sum: "Hour T * 3600 + Minute T * 60 + Second T = t + 86400"
    by (simp add: clock_sum w)
  have scan: "Time_ScanRow d DInt64 row
                = (case Time_row d row of
                     Inl e \<Rightarrow> Inl e
                   | Inr r \<Rightarrow> Inr (WInt64 (Hour r * 3600 + Minute r * 60 + Second r)))"
    by (simp add: Time_ScanRow_def)
  have "zoneless c" using assms(1) by (simp add: zoneless_def)
  then have "Time_ScanRow (Time_push c (Time_fromSeconds t UTC)) DInt64 (Time_Rows c)
               = Inr (WInt64 (t mod 86400))"
    using assms(2,3) by (intro Time_int64_roundtrip) simp_all
  then have rt: "Time_ScanRow (fst (Time_AppendRow c (VInt64 t))) DInt64 (Time_Rows c)
                   = Inr (WInt64 (t + 86400))"
    by (simp add: wrap)
  show ?thesis
    using app parts T(1) fields sum scan rt
    unfolding T_def by (intro conjI)
qed

theorem Time_negative_tick_wraps_witness:
  "timezone exampleTime = None \<and> - 86400 \<le> (- 1 :: int) \<and> (- 1 :: int) < 0
   \<and> unix (Time_fromSeconds (- 1) UTC) = - 1
   \<and> Hour (Time_fromSeconds (- 1) UTC) * 3600 + Minute (Time_fromSeconds (- 1) UTC) * 60
       + Second (Time_fromSeconds (- 1) UTC) = 86399
   \<and> Time_ScanRow (fst (Time_AppendRow exampleTime (VInt64 (- 1)))) DInt64 0
       = Inr (WInt64 86399)"
proof -
  have h: "timezone exampleTime = None" by (simp add: exampleTime_def)
  have r: "Time_Rows exampleTime = 0"
    by (simp add: exampleTime_def Time_Rows_def ColTime_Rows_def)
  have b: "- 86400 \<le> (- 1 :: int)" "(- 1 :: int) < 0" by simp_all
  note T = Time_negative_tick_wraps
             [where c = exampleTime and t = "- 1" and d = exampleTime and row = 0, OF h b]
  have "unix (Time_fromSeconds (- 1) UTC) = - 1"
    using T by blast
  moreover have "Hour (Time_fromSeconds (- 1) UTC) * 3600
                   + Minute (Time_fromSeconds (- 1) UTC) * 60
                   + Second (Time_fromSeconds (- 1) UTC) = - 1 + 86400"
    using T by blast
  moreover have "Time_ScanRow (fst (Time_AppendRow exampleTime (VInt64 (- 1)))) DInt64
                   (Time_Rows exampleTime) = Inr (WInt64 (- 1 + 86400))"
    using T by blast
  ultimately show ?thesis using h r by simp
qed

text \<open>
  C1, as amended.  A tick \<open>t\<close> with \<open>0 \<le> t < 86400\<close> that is appended as an \<open>int64\<close> to a
  Time column without a zone, or with the zone UTC, is read back unchanged by a scan of
  the same row into an \<open>*int64\<close>.  For a Time64 column the integer is a count of
  milliseconds whatever the declared precision: on a column of precision 3 to 9
  without a zone, or with the zone UTC, a count \<open>m\<close> with \<open>0 \<le> m < 86400000\<close> is read
  back unchanged.
\<close>

theorem int64_roundtrip_nonnegative:
  "(zoneless c \<and> 0 \<le> t \<and> t < 86400 \<longrightarrow>
      snd (Time_AppendRow c (VInt64 t)) = None
      \<and> Time_ScanRow (fst (Time_AppendRow c (VInt64 t))) DInt64 (Time_Rows c) = Inr (WInt64 t))
   \<and> (zoneless d \<and> 3 \<le> Precision (col d) \<and> Precision (col d) \<le> 9 \<and> 0 \<le> m \<and> m < 86400000 \<longrightarrow>
      snd (Time64_AppendRow d (VInt64 m)) = None
      \<and> Time64_ScanRow (fst (Time64_AppendRow d (VInt64 m))) DInt64 (Time64_Rows d)
          = Inr (WInt64 m))"
proof (intro conjI impI)
  assume a: "zoneless c \<and> 0 \<le> t \<and> t < 86400"
  show "snd (Time_AppendRow c (VInt64 t)) = None" by simp
  have "t mod 86400 = t" using a by simp
  moreover have "Time_ScanRow (Time_push c (Time_fromSeconds t UTC)) DInt64 (Time_Rows c)
                   = Inr (WInt64 (t mod 86400))"
    using a by (intro Time_int64_roundtrip) simp_all
  ultimately show "Time_ScanRow (fst (Time_AppendRow c (VInt64 t))) DInt64 (Time_Rows c)
                     = Inr (WInt64 t)"
    by simp
next
  assume a: "zoneless d \<and> 3 \<le> Precision (col d) \<and> Precision (col d) \<le> 9 \<and> 0 \<le> m \<and> m < 86400000"
  show "snd (Time64_AppendRow d (VInt64 m)) = None" by simp
  have "m mod 86400000 = m" using a by simp
  moreover have "Time64_ScanRow (Time64_push d (Time64_fromMilliseconds m UTC)) DInt64
                   (Time64_Rows d) = Inr (WInt64 (m mod 86400000))"
    using a by (intro Time64_int64_roundtrip) simp_all
  ultimately show "Time64_ScanRow (fst (Time64_AppendRow d (VInt64 m))) DInt64 (Time64_Rows d)
                     = Inr (WInt64 m)"
    by simp
qed

theorem int64_roundtrip_nonnegative_witness:
  "zoneless exampleTime \<and> (0::int) \<le> 45045 \<and> (45045::int) < 86400
   \<and> Time_ScanRow (fst (Time_AppendRow exampleTime (VInt64 45045))) DInt64 0
       = Inr (WInt64 45045)
   \<and> zoneless exampleTime64 \<and> 3 \<le> Precision (col exampleTime64)
   \<and> Precision (col exampleTime64) \<le> 9 \<and> (0::int) \<le> 45045123 \<and> (45045123::int) < 86400000
   \<and> Time64_ScanRow (fst (Time64_AppendRow exampleTime64 (VInt64 45045123))) DInt64 0
       = Inr (WInt64 45045123)"
proof -
  have z: "zoneless exampleTime" "zoneless exampleTime64"
    by (simp_all add: zoneless_def exampleTime_def exampleTime64_def)
  have p: "Precision (col exampleTime64) = 6" by (simp add: exampleTime64_def)
  have r: "Time_Rows exampleTime = 0" "Time64_Rows exampleTime64 = 0"
    by (simp_all add: exampleTime_def exampleTime64_def Time_Rows_def ColTime_Rows_def
        Time64_Rows_def ColTime64_Rows_def)
  show ?thesis
    using int64_roundtrip_nonnegative [of exampleTime 45045 exampleTime64 45045123] z p r
    by simp
qed

text \<open>
  The claim as it stands fails on a Time64 column of precision 6: the tick 86400000
  (86.4 seconds past midnight in microseconds) is taken for 86400000 milliseconds,
  a whole day, and is read back as 0.  It fails on a column of precision 0 as well:
  the tick 1 (one second past midnight) is taken for a millisecond, which the store
  of whole seconds does not hold, and is read back as 0.
\<close>

theorem int64_roundtrip_counterexample:
  "Time64_ScanRow (fst (Time64_AppendRow exampleTime64 (VInt64 86400000))) DInt64 0
     = Inr (WInt64 0)
   \<and> Time64_ScanRow (fst (Time64_AppendRow exampleTime64 (VInt64 86400000))) DInt64 0
     \<noteq> Inr (WInt64 86400000)
   \<and> Time64_ScanRow (fst (Time64_AppendRow exampleTime64sec (VInt64 1))) DInt64 0
     = Inr (WInt64 0)"
  by code_simp

text \<open>
  C2, as amended.  A signed-integer input to \<open>AppendRow\<close> or \<open>Append\<close> of a Time64 column
  is a count of milliseconds since midnight whatever the declared precision: the
  instant appended for \<open>v\<close> lies \<open>v\<close> milliseconds after the midnight of the sentinel
  day.  \<open>ScanRow\<close> into a signed integer yields the milliseconds of the row's time of
  day: 1000 for each second of its clock reading and the whole milliseconds of its
  fraction.
\<close>

theorem Time64_int64_is_milliseconds:
  "Time64_AppendRow c (VInt64 v)
     = (Time64_push c \<lparr>unix = v div 1000, nano = v mod 1000 * 1000000, zone = UTC\<rparr>, None)
   \<and> Time64_Append c (VInt64s vs)
     = (foldl Time64_push c
          (map (\<lambda>v. \<lparr>unix = v div 1000, nano = v mod 1000 * 1000000, zone = UTC\<rparr>) vs),
        Inr (replicate (length vs) 0))
   \<and> Time64_ScanRow c DInt64 row
     = (case Time64_row c row of
          Inl e \<Rightarrow> Inl e
        | Inr t \<Rightarrow> Inr (WInt64 (wallSec t * 1000 + Nanosecond t sdiv 1000000)))"
proof -
  have ms: "Hour t * 3600000 + Minute t * 60000 + Second t * 1000 = wallSec t * 1000" for t
    using clock_sum [of t] by (simp add: algebra_simps)
  show ?thesis
    by (simp add: Time64_fromMilliseconds_UTC foldl_map Time64_ScanRow_def ms split: sum.split)
qed

text \<open>
  The claim as it stands fails on a column of precision 6: the integer 1 is stored as
  the tick 1000 and read back as the instant 00:00:00.001, a millisecond past
  midnight and not a microsecond.
\<close>

theorem Time64_int64_precision_counterexample:
  "Data (col (fst (Time64_AppendRow exampleTime64 (VInt64 1)))) = [1000]
   \<and> Time64_ScanRow (fst (Time64_AppendRow exampleTime64 (VInt64 1))) DTime 0
       = Inr (WTime \<lparr>unix = 0, nano = 1000000, zone = UTC\<rparr>)"
  by code_simp

section \<open>Batches\<close>

lemma Time_parseTime_push: "Time_parseTime (Time_push c t) v = Time_parseTime c v"
  by (simp add: Time_parseTime_def Time_push_def)

lemma Time64_parseTime_push: "Time64_parseTime (Time64_push c t) v = Time64_parseTime c v"
  by (simp add: Time64_parseTime_def Time64_push_def)

text \<open>
  The loop over a \<open>[]string\<close> appends the values before the first one that does not
  parse, and stops there.
\<close>

lemma Time_appendStrings_stops:
  assumes "\<forall>v \<in> set pre. \<exists>t. Time_parseTime c v = Inr t" "Time_parseTime c bad = Inl e"
  shows "Time_appendStrings c (pre @ bad # post)
           = (foldl Time_push c (map (\<lambda>v. projr (Time_parseTime c v)) pre), Some e)"
  using assms
proof (induction pre arbitrary: c)
  case Nil
  then show ?case by simp
next
  case (Cons v pre)
  from Cons.prems(1) obtain t where t: "Time_parseTime c v = Inr t" by auto
  have "\<forall>x \<in> set pre. \<exists>u. Time_parseTime (Time_push c t) x = Inr u"
    using Cons.prems(1) by (simp add: Time_parseTime_push)
  moreover have "Time_parseTime (Time_push c t) bad = Inl e"
    using Cons.prems(2) by (simp add: Time_parseTime_push)
  ultimately have "Time_appendStrings (Time_push c t) (pre @ bad # post)
      = (foldl Time_push (Time_push c t)
           (map (\<lambda>v. projr (Time_parseTime (Time_push c t) v)) pre), Some e)"
    by (rule Cons.IH)
  then show ?case by (simp add: t Time_parseTime_push)
qed

lemma Time64_appendStrings_stops:
  assumes "\<forall>v \<in> set pre. \<exists>t. Time64_parseTime c v = Inr t" "Time64_parseTime c bad = Inl e"
  shows "Time64_appendStrings c (pre @ bad # post)
           = (foldl Time64_push c (map (\<lambda>v. projr (Time64_parseTime c v)) pre), Some e)"
  using assms
proof (induction pre arbitrary: c)
  case Nil
  then show ?case by simp
next
  case (Cons v pre)
  from Cons.prems(1) obtain t where t: "Time64_parseTime c v = Inr t" by auto
  have "\<forall>x \<in> set pre. \<exists>u. Time64_parseTime (Time64_push c t) x = Inr u"
    using Cons.prems(1) by (simp add: Time64_parseTime_push)
  moreover have "Time64_parseTime (Time64_push c t) bad = Inl e"
    using Cons.prems(2) by (simp add: Time64_parseTime_push)
  ultimately have "Time64_appendStrings (Time64_push c t) (pre @ bad # post)
      = (foldl Time64_push (Time64_push c t)
           (map (\<lambda>v. projr (Time64_parseTime (Time64_push c t) v)) pre), Some e)"
    by (rule Cons.IH)
  then show ?case by (simp add: t Time64_parseTime_push)
qed

lemma Time_Rows_foldl_push:
  "Time_Rows (foldl Time_push c ts) = Time_Rows c + int (length ts)"
  by (induction ts arbitrary: c)
     (simp_all add: Time_Rows_def ColTime_Rows_def Time_push_def ColTime_Append_def)

lemma Time64_Rows_foldl_push:
  "Time64_Rows (foldl Time64_push c ts) = Time64_Rows c + int (length ts)"
  by (induction ts arbitrary: c)
     (simp_all add: Time64_Rows_def ColTime64_Rows_def Time64_push_def ColTime64_Append_def)

text \<open>
  C3, as amended.  When the element at some position of a \<open>[]string\<close> batch does not
  convert and every element before it does, \<open>Append\<close> of either variant returns the
  error of that element and no null indicators; the elements before it have been
  appended to the row store, in order, and stay there; the failing element and the
  elements after it are not appended.
\<close>

theorem Append_strings_stops_at_first_failure:
  "((\<forall>v \<in> set pre. \<exists>t. Time_parseTime c v = Inr t) \<and> Time_parseTime c bad = Inl e \<longrightarrow>
      Time_Append c (VStrings (pre @ bad # post))
        = (foldl Time_push c (map (\<lambda>v. projr (Time_parseTime c v)) pre), Inl e)
      \<and> Time_Rows (fst (Time_Append c (VStrings (pre @ bad # post))))
        = Time_Rows c + int (length pre))
   \<and> ((\<forall>v \<in> set pre'. \<exists>t. Time64_parseTime d v = Inr t) \<and> Time64_parseTime d bad' = Inl e' \<longrightarrow>
      Time64_Append d (VStrings (pre' @ bad' # post'))
        = (foldl Time64_push d (map (\<lambda>v. projr (Time64_parseTime d v)) pre'), Inl e')
      \<and> Time64_Rows (fst (Time64_Append d (VStrings (pre' @ bad' # post'))))
        = Time64_Rows d + int (length pre'))"
  by (simp add: Time_appendStrings_stops Time64_appendStrings_stops
      Time_Rows_foldl_push Time64_Rows_foldl_push)

theorem Append_strings_stops_at_first_failure_witness:
  "Time_parseTime exampleTime ''12:30:45'' = Inr \<lparr>unix = 45045, nano = 0, zone = UTC\<rparr>
   \<and> Time_parseTime exampleTime ''bad'' = Inl (Errorf ''cannot parse time value: bad'')
   \<and> snd (Time_Append exampleTime (VStrings ([''12:30:45''] @ ''bad'' # [''01:02:03''])))
       = Inl (Errorf ''cannot parse time value: bad'')
   \<and> Time_Rows (fst (Time_Append exampleTime (VStrings ([''12:30:45''] @ ''bad'' # [''01:02:03'']))))
       = 1
   \<and> Time64_parseTime exampleTime64 ''12:30:45.5''
       = Inr \<lparr>unix = 45045, nano = 500000000, zone = UTC\<rparr>
   \<and> Time64_parseTime exampleTime64 ''bad'' = Inl (Errorf ''cannot parse time64 value: bad'')
   \<and> snd (Time64_Append exampleTime64 (VStrings ([''12:30:45.5''] @ ''bad'' # [''01:02:03''])))
       = Inl (Errorf ''cannot parse time64 value: bad'')
   \<and> Time64_Rows (fst (Time64_Append exampleTime64
                          (VStrings ([''12:30:45.5''] @ ''bad'' # [''01:02:03'']))))
       = 1"
proof -
  have a: "Time_parseTime exampleTime ''12:30:45''
             = Inr \<lparr>unix = 45045, nano = 0, zone = UTC\<rparr>"
    by code_simp
  have b: "Time_parseTime exampleTime ''bad'' = Inl (Errorf ''cannot parse time value: bad'')"
    by code_simp
  have a': "Time64_parseTime exampleTime64 ''12:30:45.5''
              = Inr \<lparr>unix = 45045, nano = 500000000, zone = UTC\<rparr>"
    by code_simp
  have b': "Time64_parseTime exampleTime64 ''bad''
              = Inl (Errorf ''cannot parse time64 value: bad'')"
    by code_simp
  have r: "Time_Rows exampleTime = 0" "Time64_Rows exampleTime64 = 0"
    by (simp_all add: exampleTime_def exampleTime64_def Time_Rows_def ColTime_Rows_def
        Time64_Rows_def ColTime64_Rows_def)
  have h: "\<forall>v \<in> set [''12:30:45'']. \<exists>t. Time_parseTime exampleTime v = Inr t"
    using a by simp
  have h': "\<forall>v \<in> set [''12:30:45.5'']. \<exists>t. Time64_parseTime exampleTime64 v = Inr t"
    using a' by simp
  have t: "Time_Append exampleTime (VStrings ([''12:30:45''] @ ''bad'' # [''01:02:03'']))
             = (foldl Time_push exampleTime
                  (map (\<lambda>v. projr (Time_parseTime exampleTime v)) [''12:30:45'']),
                Inl (Errorf ''cannot parse time value: bad''))
           \<and> Time_Rows (fst (Time_Append exampleTime
                                 (VStrings ([''12:30:45''] @ ''bad'' # [''01:02:03'']))))
             = Time_Rows exampleTime + int (length [''12:30:45''])"
    and t': "Time64_Append exampleTime64 (VStrings ([''12:30:45.5''] @ ''bad'' # [''01:02:03'']))
             = (foldl Time64_push exampleTime64
                  (map (\<lambda>v. projr (Time64_parseTime exampleTime64 v)) [''12:30:45.5'']),
                Inl (Errorf ''cannot parse time64 value: bad''))
           \<and> Time64_Rows (fst (Time64_Append exampleTime64
                                   (VStrings ([''12:30:45.5''] @ ''bad'' # [''01:02:03'']))))
             = Time64_Rows exampleTime64 + int (length [''12:30:45.5''])"
    using Append_strings_stops_at_first_failure
            [of "[''12:30:45'']" exampleTime "''bad''" "Errorf ''cannot parse time value: bad''"
                "[''01:02:03'']" "[''12:30:45.5'']" exampleTime64 "''bad''"
                "Errorf ''cannot parse time64 value: bad''" "[''01:02:03'']"]
          h h' b b'
    by blast+
  show ?thesis
    using t t' a a' b b' r
    by (simp add: Time_Rows_def ColTime_Rows_def Time_push_def ColTime_Append_def
          Time64_Rows_def ColTime64_Rows_def Time64_push_def ColTime64_Append_def
        del: Time_Append.simps Time64_Append.simps)
qed

text \<open>
  The claim as it stands fails: after the batch \<open>["12:30:45", "bad"]\<close> the call has
  returned an error and the row store holds the tick of the first element.
\<close>

theorem Append_strings_counterexample:
  "snd (Time_Append exampleTime (VStrings [''12:30:45'', ''bad'']))
     = Inl (Errorf ''cannot parse time value: bad'')
   \<and> col exampleTime = []
   \<and> col (fst (Time_Append exampleTime (VStrings [''12:30:45'', ''bad'']))) = [45045]"
  by code_simp

text \<open>
  C4.  The code at the failing input: for an \<open>sql.NullTime\<close> with \<open>Valid = false\<close>, by
  value or behind a pointer, \<open>Append\<close> of either variant stores the zero instant and
  returns the null indicator 0, where the claim has 1.
\<close>

theorem Append_invalid_NullTime_indicator:
  "Time_Append c (VNullTimes [NullTime t False]) = (Time_push c zeroTime, Inr [0])
   \<and> Time_Append c (VNullTimePtrs [Some (NullTime t False)]) = (Time_push c zeroTime, Inr [0])
   \<and> Time64_Append d (VNullTimes [NullTime t False]) = (Time64_push d zeroTime, Inr [0])
   \<and> Time64_Append d (VNullTimePtrs [Some (NullTime t False)]) = (Time64_push d zeroTime, Inr [0])"
  by (simp add: isNil_def)

text \<open>
  The other half of C4 holds: an element with \<open>Valid = true\<close> has the indicator 0 and
  its instant is what goes to the row store.  The sibling cases for \<open>[]*int64\<close> and
  \<open>[]*time.Time\<close> do mark an absent element.
\<close>

lemma Append_valid_NullTime:
  "Time_Append c (VNullTimes [NullTime t True]) = (Time_push c t, Inr [0])
   \<and> Time64_Append d (VNullTimes [NullTime t True]) = (Time64_push d t, Inr [0])"
  by simp

lemma Append_nil_pointer_marked:
  "Time_Append c (VTimePtrs [None]) = (Time_push c zeroTime, Inr [1])
   \<and> Time_Append c (VInt64Ptrs [None]) = (Time_push c zeroTime, Inr [1])
   \<and> Time64_Append d (VTimePtrs [None]) = (Time64_push d zeroTime, Inr [1])
   \<and> Time64_Append d (VInt64Ptrs [None]) = (Time64_push d zeroTime, Inr [1])"
  by (simp add: isNil_def)

section \<open>Strings written and read back\<close>

text \<open>
  C5.  The code at the failing input: on a Time64 column of precision 6 the string
  \<open>12:30:45.123456\<close> is appended without error, as the tick 45045123456; the scan of that
  row into a \<open>*string\<close> is refused with a conversion error, because the type switch of
  \<open>Time64.ScanRow\<close> has no string case.
\<close>

theorem Time64_string_scan_refused:
  "snd (Time64_AppendRow exampleTime64 (VString ''12:30:45.123456'')) = None
   \<and> Data (col (fst (Time64_AppendRow exampleTime64 (VString ''12:30:45.123456''))))
       = [45045123456]
   \<and> Time64_ScanRow (fst (Time64_AppendRow exampleTime64 (VString ''12:30:45.123456''))) DString 0
       = Inl (ColumnConverterError ''ScanRow'' ''*string'' ''Time64'' [])"
  by code_simp

text \<open>
  The Time half of C5 holds, and the layout that \<open>time64.go\<close> declares for this purpose
  and never uses would give what the claim says.
\<close>

lemma Time_string_roundtrip:
  "Time_ScanRow (fst (Time_AppendRow exampleTime (VString ''12:30:45''))) DString 0
     = Inr (WString ''12:30:45'')"
  by code_simp

lemma Time64_unused_layout:
  "Time64_ScanRow (fst (Time64_AppendRow exampleTime64 (VString ''12:30:45.123456''))) DTime 0
     = Inr (WTime \<lparr>unix = 45045, nano = 123456000, zone = UTC\<rparr>)
   \<and> time_Format \<lparr>unix = 45045, nano = 123456000, zone = UTC\<rparr> defaultTime64Format
     = ''12:30:45.123456''"
  by code_simp

section \<open>Unsupported destinations\<close>

text \<open>
  C9.  For a destination whose type is not one the type switch names and that is no
  \<open>sql.Scanner\<close>, \<open>ScanRow\<close> of either variant returns a conversion error with the
  operation \<open>ScanRow\<close> and the type of the destination, for every column and every row
  index; it never returns without an error.
\<close>

theorem ScanRow_unsupported_destination:
  "Time_ScanRow c (DOther ty) row
     = Inl (ColumnConverterError ''ScanRow'' (destType (DOther ty)) ''Time'' [])
   \<and> Time64_ScanRow d (DOther ty) row
     = Inl (ColumnConverterError ''ScanRow'' (destType (DOther ty)) ''Time64'' [])"
  by (simp add: Time_ScanRow_def Time64_ScanRow_def)

section \<open>Type descriptors\<close>

lemma Contains_comma: "strings_Contains t '','' \<longleftrightarrow> CHR '','' \<in> set t"
  by (induction t) (auto simp: strings_HasPrefix_def)

lemma splitOn_none: "sep \<notin> set s \<Longrightarrow> splitOn sep acc s = [rev acc @ s]"
  by (induction s arbitrary: acc) auto

lemma Split_no_comma: "\<not> strings_Contains t '','' \<Longrightarrow> strings_Split t (CHR '','') = [t]"
  by (simp add: Contains_comma strings_Split_def splitOn_none)

lemma digitVal_nonneg: "isDigit c \<Longrightarrow> 0 \<le> digitVal c"
  by (simp add: isDigit_def digitVal_def)

lemma decimal_nonneg_acc:
  "list_all isDigit ds \<Longrightarrow> 0 \<le> n \<Longrightarrow> 0 \<le> foldl (\<lambda>n c. n * 10 + digitVal c) n ds"
  by (induction ds arbitrary: n) (simp_all add: digitVal_nonneg)

lemma decimal_nonneg: "list_all isDigit ds \<Longrightarrow> 0 \<le> decimal ds"
  by (simp add: decimal_def decimal_nonneg_acc)

text \<open>What \<open>strconv.ParseInt\<close> returns for 8 bits lies between -128 and 127.\<close>

lemma ParseInt8_range:
  assumes "strconv_ParseInt s 8 = Inr n"
  shows "- 128 \<le> n \<and> n \<le> 127"
proof -
  define ds where "ds = (if hd s = CHR ''+'' \<or> hd s = CHR ''-'' then tl s else s)"
  have ok: "s \<noteq> []" "ds \<noteq> []" "list_all isDigit ds"
    using assms by (auto simp: strconv_ParseInt_def Let_def ds_def split: if_splits)
  have nn: "0 \<le> decimal ds" using ok(3) by (rule decimal_nonneg)
  show ?thesis
    using assms ok nn
    by (auto simp: strconv_ParseInt_def Let_def ds_def [symmetric] split: if_splits)
qed

text \<open>
  C6, as amended.  Parsing a Time64 descriptor succeeds only when the descriptor starts
  with \<open>Time64(\<close>, holds at most one comma, and its precision parameter is a base-10
  integer that fits 8 signed bits, -128 to 127: no check against 0 to 9 is made, and
  the precision stored is that integer modulo 256.  A precision parameter that
  \<open>strconv.ParseInt\<close> refuses (non-numeric, or outside -128 to 127) is a parse error,
  and so is a descriptor with two or more commas.
\<close>

theorem Time64_parse_precision:
  "(snd (Time64_parse tzLoad c t tz) = None \<longrightarrow>
      strings_HasPrefix t ''Time64('' \<and> length (strings_Split t (CHR '','')) \<le> 2
      \<and> (\<exists>n. strconv_ParseInt (Time64_precisionParam t) 8 = Inr n \<and> - 128 \<le> n \<and> n \<le> 127
              \<and> Time64_Precision (fst (Time64_parse tzLoad c t tz)) = (n mod 256, True)))
   \<and> (strconv_ParseInt (Time64_precisionParam t') 8 = Inl e \<longrightarrow>
        snd (Time64_parse tzLoad c t' tz) \<noteq> None)
   \<and> (2 < length (strings_Split t'' (CHR '','')) \<longrightarrow>
        snd (Time64_parse tzLoad c t'' tz) = Some (UnsupportedColumnTypeError t''))"
proof (intro conjI impI)
  assume ok: "snd (Time64_parse tzLoad c t tz) = None"
  show "strings_HasPrefix t ''Time64(''"
    using ok by (auto simp: Time64_parse_def Let_def split: if_splits)
  show "length (strings_Split t (CHR '','')) \<le> 2"
    using ok by (auto simp: Time64_parse_def Let_def Split_no_comma split: if_splits)
  show "\<exists>n. strconv_ParseInt (Time64_precisionParam t) 8 = Inr n \<and> - 128 \<le> n \<and> n \<le> 127
            \<and> Time64_Precision (fst (Time64_parse tzLoad c t tz)) = (n mod 256, True)"
  proof (cases "strings_Contains t '',''")
    case True
    with ok have two: "length (strings_Split t (CHR '','')) = 2"
      by (auto simp: Time64_parse_def Let_def split: if_splits)
    then have p0: "strings_Split t (CHR '','') ! 0 = hd (strings_Split t (CHR '',''))"
      by (cases "strings_Split t (CHR '','')") auto
    from ok True two obtain n where
      n: "strconv_ParseInt (Time64_precisionParam t) 8 = Inr n"
      by (auto simp: Time64_parse_def Let_def Time64_precisionParam_def p0
               split: if_splits sum.splits)
    have "Time64_Precision (fst (Time64_parse tzLoad c t tz)) = (n mod 256, True)"
      using ok True two n
      by (auto simp: Time64_parse_def Let_def Time64_precisionParam_def p0 Time64_Precision_def
                     ColTime64_WithPrecision_def byte_def
               split: if_splits sum.splits)
    with n ParseInt8_range [OF n] show ?thesis by blast
  next
    case False
    then have p: "Time64_precisionParam t
                    = strings_TrimSuffix (strings_TrimPrefix t ''Time64('') '')''"
      by (simp add: Time64_precisionParam_def Split_no_comma)
    from ok False obtain n where
      n: "strconv_ParseInt (Time64_precisionParam t) 8 = Inr n"
      by (auto simp: Time64_parse_def Let_def p split: if_splits sum.splits)
    have "Time64_Precision (fst (Time64_parse tzLoad c t tz)) = (n mod 256, True)"
      using ok False n
      by (auto simp: Time64_parse_def Let_def p Time64_Precision_def
                     ColTime64_WithPrecision_def byte_def
               split: if_splits sum.splits)
    with n ParseInt8_range [OF n] show ?thesis by blast
  qed
next
  assume bad: "strconv_ParseInt (Time64_precisionParam t') 8 = Inl e"
  show "snd (Time64_parse tzLoad c t' tz) \<noteq> None"
  proof (cases "strings_Contains t' '',''")
    case True
    show ?thesis
    proof (cases "length (strings_Split t' (CHR '','')) = 2")
      case two: True
      then have p0: "strings_Split t' (CHR '','') ! 0 = hd (strings_Split t' (CHR '',''))"
        by (cases "strings_Split t' (CHR '','')") auto
      show ?thesis
        using bad True two
        by (auto simp: Time64_parse_def Let_def Time64_precisionParam_def p0)
    next
      case False
      with True show ?thesis by (auto simp: Time64_parse_def Let_def)
    qed
  next
    case False
    then have p: "Time64_precisionParam t'
                    = strings_TrimSuffix (strings_TrimPrefix t' ''Time64('') '')''"
      by (simp add: Time64_precisionParam_def Split_no_comma)
    show ?thesis
      using bad False by (auto simp: Time64_parse_def Let_def p)
  qed
next
  assume many: "2 < length (strings_Split t'' (CHR '',''))"
  have "strings_Contains t'' '',''"
  proof (rule ccontr)
    assume "\<not> strings_Contains t'' '',''"
    then have "strings_Split t'' (CHR '','') = [t'']" by (rule Split_no_comma)
    with many show False by simp
  qed
  with many show "snd (Time64_parse tzLoad c t'' tz) = Some (UnsupportedColumnTypeError t'')"
    by (auto simp: Time64_parse_def Let_def)
qed

theorem Time64_parse_precision_witness:
  "snd (Time64_parse exampleRegistry exampleTime64 ''Time64(3)'' None) = None
   \<and> Time64_Precision (fst (Time64_parse exampleRegistry exampleTime64 ''Time64(3)'' None))
       = (3, True)
   \<and> strconv_ParseInt (Time64_precisionParam ''Time64(bad)'') 8
       = Inl (NumError ''ParseInt'' ''bad'' ''invalid syntax'')
   \<and> snd (Time64_parse exampleRegistry exampleTime64 ''Time64(bad)'' None) \<noteq> None
   \<and> 2 < length (strings_Split ''Time64(3,4,5)'' (CHR '',''))
   \<and> snd (Time64_parse exampleRegistry exampleTime64 ''Time64(3,4,5)'' None)
       = Some (UnsupportedColumnTypeError ''Time64(3,4,5)'')"
proof -
  have h1: "snd (Time64_parse exampleRegistry exampleTime64 ''Time64(3)'' None) = None"
    by code_simp
  have h2: "strconv_ParseInt (Time64_precisionParam ''Time64(bad)'') 8
              = Inl (NumError ''ParseInt'' ''bad'' ''invalid syntax'')"
    by code_simp
  have h3: "2 < length (strings_Split ''Time64(3,4,5)'' (CHR '',''))"
    by code_simp
  have p: "strconv_ParseInt (Time64_precisionParam ''Time64(3)'') 8 = Inr 3"
    by code_simp
  note T = Time64_parse_precision
             [of exampleRegistry exampleTime64 "''Time64(3)''" None "''Time64(bad)''"
                 "NumError ''ParseInt'' ''bad'' ''invalid syntax''" "''Time64(3,4,5)''"]
  from T h1 p have "Time64_Precision (fst (Time64_parse exampleRegistry exampleTime64
                                             ''Time64(3)'' None)) = (3, True)"
    by auto
  moreover from T h2
  have "snd (Time64_parse exampleRegistry exampleTime64 ''Time64(bad)'' None) \<noteq> None"
    by blast
  moreover from T h3
  have "snd (Time64_parse exampleRegistry exampleTime64 ''Time64(3,4,5)'' None)
          = Some (UnsupportedColumnTypeError ''Time64(3,4,5)'')"
    by blast
  ultimately show ?thesis using h1 h2 h3 by blast
qed

text \<open>
  The claim as it stands fails: \<open>Time64(12)\<close> and \<open>Time64(-1)\<close> parse without error, to
  the precisions 12 and 255.
\<close>

theorem Time64_parse_precision_counterexample:
  "snd (Time64_parse exampleRegistry exampleTime64 ''Time64(12)'' None) = None
   \<and> Time64_Precision (fst (Time64_parse exampleRegistry exampleTime64 ''Time64(12)'' None))
       = (12, True)
   \<and> snd (Time64_parse exampleRegistry exampleTime64 ''Time64(-1)'' None) = None
   \<and> Time64_Precision (fst (Time64_parse exampleRegistry exampleTime64 ''Time64(-1)'' None))
       = (255, True)"
  by code_simp




section \<open>Strings to instants\<close>

lemma tryFormats_first:
  "i < length fs \<Longrightarrow> time_Parse (fs ! i) v = Some tv
     \<Longrightarrow> \<forall>j<i. time_Parse (fs ! j) v = None \<Longrightarrow> tryFormats fs v = Some tv"
proof (induction fs arbitrary: i)
  case Nil
  then show ?case by simp
next
  case (Cons f fs)
  show ?case
  proof (cases i)
    case 0
    with Cons.prems show ?thesis by simp
  next
    case (Suc k)
    from Cons.prems(3) Suc have f: "time_Parse f v = None" by auto
    have "\<forall>j<k. time_Parse (fs ! j) v = None"
      using Cons.prems(3) Suc by auto
    with Cons.IH [of k] Cons.prems(1,2) Suc have "tryFormats fs v = Some tv" by simp
    with f show ?thesis by simp
  qed
qed

lemma tryFormats_none: "\<forall>f \<in> set fs. time_Parse f v = None \<Longrightarrow> tryFormats fs v = None"
  by (induction fs) simp_all

text \<open>
  C8, as amended.  Both variants try their layouts in the order of their tables
  (\<open>Time_formats\<close>, \<open>Time64_formats\<close>): the result is built from the clock reading of the
  first layout that parses the string, in the zone of the column or in UTC.  When no
  layout parses it and the string is a signed decimal integer, it is that count of
  seconds (Time) or milliseconds (Time64).  When it is neither, the conversion fails;
  the message is \<open>cannot parse time value: \<close> and the string for Time, and
  \<open>cannot parse time64 value: \<close> and the string for Time64.
\<close>

theorem parseTime_order:
  "(i < length Time_formats \<and> time_Parse (Time_formats ! i) v = Some tv
      \<and> (\<forall>j<i. time_Parse (Time_formats ! j) v = None) \<longrightarrow>
      Time_parseTime c v
        = Inr (time_Date 1970 1 1 (Hour tv) (Minute tv) (Second tv) (Nanosecond tv)
                 (case timezone c of Some tz \<Rightarrow> tz | None \<Rightarrow> UTC)))
   \<and> ((\<forall>f \<in> set Time_formats. time_Parse f w = None) \<and> strconv_ParseInt w 64 = Inr n \<longrightarrow>
      Time_parseTime c w
        = Inr (Time_fromSeconds n (case timezone c of Some tz \<Rightarrow> tz | None \<Rightarrow> UTC)))
   \<and> ((\<forall>f \<in> set Time_formats. time_Parse f x = None) \<and> strconv_ParseInt x 64 = Inl e \<longrightarrow>
      Time_parseTime c x = Inl (Errorf (''cannot parse time value: '' @ x)))
   \<and> (i' < length Time64_formats \<and> time_Parse (Time64_formats ! i') v' = Some tv'
      \<and> (\<forall>j<i'. time_Parse (Time64_formats ! j) v' = None) \<longrightarrow>
      Time64_parseTime d v'
        = Inr (time_Date 1970 1 1 (Hour tv') (Minute tv') (Second tv') (Nanosecond tv')
                 (case timezone d of Some tz \<Rightarrow> tz | None \<Rightarrow> UTC)))
   \<and> ((\<forall>f \<in> set Time64_formats. time_Parse f w' = None) \<and> strconv_ParseInt w' 64 = Inr n' \<longrightarrow>
      Time64_parseTime d w'
        = Inr (Time64_fromMilliseconds n' (case timezone d of Some tz \<Rightarrow> tz | None \<Rightarrow> UTC)))
   \<and> ((\<forall>f \<in> set Time64_formats. time_Parse f x' = None) \<and> strconv_ParseInt x' 64 = Inl e' \<longrightarrow>
      Time64_parseTime d x' = Inl (Errorf (''cannot parse time64 value: '' @ x')))"
proof (intro conjI impI)
  assume "i < length Time_formats \<and> time_Parse (Time_formats ! i) v = Some tv
            \<and> (\<forall>j<i. time_Parse (Time_formats ! j) v = None)"
  then have "tryFormats Time_formats v = Some tv" by (blast intro: tryFormats_first)
  then show "Time_parseTime c v
               = Inr (time_Date 1970 1 1 (Hour tv) (Minute tv) (Second tv) (Nanosecond tv)
                        (case timezone c of Some tz \<Rightarrow> tz | None \<Rightarrow> UTC))"
    by (simp add: Time_parseTime_def)
next
  assume a: "(\<forall>f \<in> set Time_formats. time_Parse f w = None) \<and> strconv_ParseInt w 64 = Inr n"
  then have "tryFormats Time_formats w = None" by (blast intro: tryFormats_none)
  with a show "Time_parseTime c w
                 = Inr (Time_fromSeconds n (case timezone c of Some tz \<Rightarrow> tz | None \<Rightarrow> UTC))"
    by (simp add: Time_parseTime_def)
next
  assume a: "(\<forall>f \<in> set Time_formats. time_Parse f x = None) \<and> strconv_ParseInt x 64 = Inl e"
  then have "tryFormats Time_formats x = None" by (blast intro: tryFormats_none)
  with a show "Time_parseTime c x = Inl (Errorf (''cannot parse time value: '' @ x))"
    by (simp add: Time_parseTime_def)
next
  assume "i' < length Time64_formats \<and> time_Parse (Time64_formats ! i') v' = Some tv'
            \<and> (\<forall>j<i'. time_Parse (Time64_formats ! j) v' = None)"
  then have "tryFormats Time64_formats v' = Some tv'" by (blast intro: tryFormats_first)
  then show "Time64_parseTime d v'
               = Inr (time_Date 1970 1 1 (Hour tv') (Minute tv') (Second tv') (Nanosecond tv')
                        (case timezone d of Some tz \<Rightarrow> tz | None \<Rightarrow> UTC))"
    by (simp add: Time64_parseTime_def)
next
  assume a: "(\<forall>f \<in> set Time64_formats. time_Parse f w' = None)
               \<and> strconv_ParseInt w' 64 = Inr n'"
  then have "tryFormats Time64_formats w' = None" by (blast intro: tryFormats_none)
  with a show "Time64_parseTime d w'
                 = Inr (Time64_fromMilliseconds n'
                          (case timezone d of Some tz \<Rightarrow> tz | None \<Rightarrow> UTC))"
    by (simp add: Time64_parseTime_def)
next
  assume a: "(\<forall>f \<in> set Time64_formats. time_Parse f x' = None)
               \<and> strconv_ParseInt x' 64 = Inl e'"
  then have "tryFormats Time64_formats x' = None" by (blast intro: tryFormats_none)
  with a show "Time64_parseTime d x' = Inl (Errorf (''cannot parse time64 value: '' @ x'))"
    by (simp add: Time64_parseTime_def)
qed


theorem parseTime_order_witness:
  "(1::nat) < length Time_formats
   \<and> time_Parse (Time_formats ! 1) ''12:30'' = Some \<lparr>unix = - 62167174200, nano = 0, zone = UTC\<rparr>
   \<and> time_Parse (Time_formats ! 0) ''12:30'' = None
   \<and> Time_parseTime exampleTime ''12:30'' = Inr \<lparr>unix = 45000, nano = 0, zone = UTC\<rparr>
   \<and> list_all (\<lambda>f. time_Parse f ''3600'' = None) Time_formats
   \<and> strconv_ParseInt ''3600'' 64 = Inr 3600
   \<and> Time_parseTime exampleTime ''3600'' = Inr \<lparr>unix = 3600, nano = 0, zone = UTC\<rparr>
   \<and> list_all (\<lambda>f. time_Parse f ''bad'' = None) Time_formats
   \<and> strconv_ParseInt ''bad'' 64 = Inl (NumError ''ParseInt'' ''bad'' ''invalid syntax'')
   \<and> Time_parseTime exampleTime ''bad'' = Inl (Errorf ''cannot parse time value: bad'')
   \<and> (1::nat) < length Time64_formats
   \<and> time_Parse (Time64_formats ! 1) ''12:30'' = Some \<lparr>unix = - 62167174200, nano = 0, zone = UTC\<rparr>
   \<and> time_Parse (Time64_formats ! 0) ''12:30'' = None
   \<and> Time64_parseTime exampleTime64 ''12:30'' = Inr \<lparr>unix = 45000, nano = 0, zone = UTC\<rparr>
   \<and> list_all (\<lambda>f. time_Parse f ''3600'' = None) Time64_formats
   \<and> Time64_parseTime exampleTime64 ''3600'' = Inr \<lparr>unix = 3, nano = 600000000, zone = UTC\<rparr>
   \<and> list_all (\<lambda>f. time_Parse f ''bad'' = None) Time64_formats
   \<and> Time64_parseTime exampleTime64 ''bad'' = Inl (Errorf ''cannot parse time64 value: bad'')"
proof -
  define tv :: gotime where "tv = \<lparr>unix = - 62167174200, nano = 0, zone = UTC\<rparr>"
  have l: "(1::nat) < length Time_formats" "(1::nat) < length Time64_formats"
    by (simp_all add: Time_formats_def Time64_formats_def)
  have p1: "time_Parse (Time_formats ! 1) ''12:30'' = Some tv"
    and q1: "time_Parse (Time64_formats ! 1) ''12:30'' = Some tv"
    unfolding tv_def by code_simp+
  have p0: "time_Parse (Time_formats ! 0) ''12:30'' = None"
    and q0: "time_Parse (Time64_formats ! 0) ''12:30'' = None"
    by code_simp+
  have f1: "\<forall>j<(1::nat). time_Parse (Time_formats ! j) ''12:30'' = None"
    and g1: "\<forall>j<(1::nat). time_Parse (Time64_formats ! j) ''12:30'' = None"
    using p0 q0 by simp_all
  have f2: "\<forall>f \<in> set Time_formats. time_Parse f ''3600'' = None"
    and g2: "\<forall>f \<in> set Time64_formats. time_Parse f ''3600'' = None"
    by code_simp+
  have f3: "\<forall>f \<in> set Time_formats. time_Parse f ''bad'' = None"
    and g3: "\<forall>f \<in> set Time64_formats. time_Parse f ''bad'' = None"
    by code_simp+
  have i2: "strconv_ParseInt ''3600'' 64 = Inr 3600"
    and i3: "strconv_ParseInt ''bad'' 64 = Inl (NumError ''ParseInt'' ''bad'' ''invalid syntax'')"
    by code_simp+
  have z: "(case timezone exampleTime of Some tz \<Rightarrow> tz | None \<Rightarrow> UTC) = UTC"
    "(case timezone exampleTime64 of Some tz \<Rightarrow> tz | None \<Rightarrow> UTC) = UTC"
    by (simp_all add: exampleTime_def exampleTime64_def)
  have d: "time_Date 1970 1 1 (Hour tv) (Minute tv) (Second tv) (Nanosecond tv) UTC
             = \<lparr>unix = 45000, nano = 0, zone = UTC\<rparr>"
    unfolding tv_def by code_simp
  have s: "Time_fromSeconds 3600 UTC = \<lparr>unix = 3600, nano = 0, zone = UTC\<rparr>"
    by (rule Time_fromSeconds_UTC)
  have m: "Time64_fromMilliseconds 3600 UTC = \<lparr>unix = 3, nano = 600000000, zone = UTC\<rparr>"
    by (simp add: Time64_fromMilliseconds_UTC)
  note T = parseTime_order
             [of 1 "''12:30''" tv exampleTime "''3600''" 3600 "''bad''"
                 "NumError ''ParseInt'' ''bad'' ''invalid syntax''"
                 1 "''12:30''" tv exampleTime64 "''3600''" 3600 "''bad''"
                 "NumError ''ParseInt'' ''bad'' ''invalid syntax''"]
  from T l p1 f1 have r1: "Time_parseTime exampleTime ''12:30''
                             = Inr \<lparr>unix = 45000, nano = 0, zone = UTC\<rparr>"
    unfolding z d by blast
  from T f2 i2 have r2: "Time_parseTime exampleTime ''3600''
                           = Inr \<lparr>unix = 3600, nano = 0, zone = UTC\<rparr>"
    unfolding z s by blast
  from T f3 i3 have r3: "Time_parseTime exampleTime ''bad''
                           = Inl (Errorf (''cannot parse time value: '' @ ''bad''))"
    by blast
  from T l q1 g1 have r4: "Time64_parseTime exampleTime64 ''12:30''
                             = Inr \<lparr>unix = 45000, nano = 0, zone = UTC\<rparr>"
    unfolding z d by blast
  from T g2 i2 have r5: "Time64_parseTime exampleTime64 ''3600''
                           = Inr \<lparr>unix = 3, nano = 600000000, zone = UTC\<rparr>"
    unfolding z m by blast
  from T g3 i3 have r6: "Time64_parseTime exampleTime64 ''bad''
                           = Inl (Errorf (''cannot parse time64 value: '' @ ''bad''))"
    by blast
  show ?thesis
    using l p1 q1 p0 q0 f2 g2 f3 g3 i2 i3 r1 r2 r3 r4 r5 r6
    unfolding tv_def by (simp add: list_all_iff)
qed

text \<open>
  The claim as it stands fails for Time64: its message is not the one the claim
  quotes for both variants.
\<close>

theorem parseTime_message_counterexample:
  "Time64_parseTime exampleTime64 ''bad'' = Inl (Errorf ''cannot parse time64 value: bad'')
   \<and> Time64_parseTime exampleTime64 ''bad'' \<noteq> Inl (Errorf ''cannot parse time value: bad'')"
  by code_simp

end
